theory Spec2Isabelle
  imports Main
begin

section \<open>The suggestion manager of the editor extension\<close>

text \<open>
  The class \<open>SuggestionManager\<close> (\<open>vscode-extension/src/services/suggestionManager.ts\<close>)
  owns one pending suggestion and drives the editor host: it opens a diff view, highlights
  the target range, and on accept replaces the range in the document. The repository holds
  a second copy of the class (\<open>unnamed/part_004\<close>) whose \<open>acceptSuggestion\<close> and
  \<open>rejectSuggestion\<close> differ; every other method is the same text in both copies.
  The second copy's two methods are embedded with the suffix \<open>_alt\<close>.

  The manager's fields and the part of the editor host it reads and writes are one record;
  every method takes the state and returns the new one. An \<open>await\<close> is sequencing, except
  in the section on suspension points, where a call is cut at its awaits.
\<close>

subsection \<open>Data\<close>

type_synonym uri = string

text \<open>A \<open>vscode.Range\<close>, as a pair of offsets into the document text.\<close>

record text_range =
  range_start :: nat
  range_end :: nat

text \<open>A \<open>vscode.TextEditor\<close> object: its identity and \<open>editor.document.uri\<close>.\<close>

record text_editor =
  editor_id :: nat
  document_uri :: uri

text \<open>The object stored in \<open>currentSuggestion\<close> (lines 5-10).\<close>

record suggestion =
  editor :: text_editor
  sugg_range :: text_range
  newCode :: string
  explanation :: string

text \<open>An open text editor of the host with the decoration ranges set on it.\<close>

record editor_view =
  view_editor :: text_editor
  view_decorations :: "text_range list"

text \<open>
  A diff editor opened by the command \<open>vscode.diff\<close>: the two URIs it compares, the
  text of each side, and whether it was opened as a preview editor.
\<close>

record diff_view =
  diff_left :: uri
  diff_right :: uri
  diff_original :: string
  diff_proposed :: string
  diff_preview :: bool

text \<open>The notifications of \<open>vscode.window\<close>: information, warning and error messages.\<close>

datatype message = Information string | Warning string | ErrorMessage string

text \<open>
  The calls on documents and editors that reach the host, in the order they are made.
  \<open>EditCall\<close> and \<open>SaveCall\<close> carry the boolean the host answers.
\<close>

datatype host_call =
    CloseAllEditors
  | OpenTextDocument uri
  | ShowTextDocument uri
  | EditCall uri text_range string bool
  | SaveCall uri bool
  | DiffCall uri uri

text \<open>
  The state. \<open>currentSuggestion\<close>, \<open>decorationDisposed\<close> (whether
  \<open>decorationType.dispose()\<close> has run) and \<open>subscriptions\<close> (\<open>context.subscriptions\<close>)
  belong to the manager, the rest to the host:
  \<^item> \<open>files\<close>: the text a URI resolves to when the document is not loaded;
  \<^item> \<open>textDocuments\<close>: \<open>workspace.textDocuments\<close>, the loaded documents and their text;
  \<^item> \<open>visibleTextEditors\<close>, \<open>activeTextEditor\<close>, \<open>diffEditors\<close>: the open views;
  \<^item> \<open>hasSuggestion\<close>: the context key \<open>aiCodeAssistant.hasSuggestion\<close>;
  \<^item> \<open>notifications\<close>, \<open>console\<close>, \<open>outputChannel\<close>: what was shown and logged;
  \<^item> \<open>timers\<close>: the callbacks scheduled by \<open>setTimeout\<close> that have not run yet;
  \<^item> \<open>autoSave\<close>, \<open>showInlineDecorations\<close>: the settings, \<open>None\<close> when unset;
  \<^item> \<open>edit_ok\<close>, \<open>save_ok\<close>, \<open>diff_ok\<close>: whether the host accepts an edit, writes a
    document, opens a diff view;
  \<^item> \<open>diff_in_place\<close>: the layout of the host, whether a diff editor opens in the place
    of the active text editor or beside it;
  \<^item> \<open>trace\<close>: the host calls made so far.
\<close>

record state =
  currentSuggestion :: "suggestion option"
  decorationDisposed :: bool
  subscriptions :: "string list"
  files :: "uri \<rightharpoonup> string"
  textDocuments :: "uri \<rightharpoonup> string"
  visibleTextEditors :: "editor_view list"
  activeTextEditor :: "text_editor option"
  diffEditors :: "diff_view list"
  nextEditorId :: nat
  hasSuggestion :: bool
  notifications :: "message list"
  console :: "string list"
  outputChannel :: "string list"
  timers :: "(uri \<times> text_range) list"
  autoSave :: "bool option"
  showInlineDecorations :: "bool option"
  edit_ok :: bool
  save_ok :: bool
  diff_ok :: bool
  diff_in_place :: bool
  trace :: "host_call list"

text \<open>
  A host call that can throw returns the error message (\<open>Inl\<close>) or its value (\<open>Inr\<close>),
  and the state it leaves.
\<close>

type_synonym 'a outcome = "(string + 'a) \<times> state"

subsection \<open>The host\<close>

text \<open>\<open>document.getText(range)\<close> and the text after \<open>editBuilder.replace(range, text)\<close>.\<close>

definition getText :: "string \<Rightarrow> text_range \<Rightarrow> string" where
  "getText t r = take (range_end r - range_start r) (drop (range_start r) t)"

definition replace_range :: "string \<Rightarrow> text_range \<Rightarrow> string \<Rightarrow> string" where
  "replace_range t r c = take (range_start r) t @ c @ drop (range_end r) t"

definition is_open :: "text_editor \<Rightarrow> state \<Rightarrow> bool" where
  "is_open ed s = (editor_id ed \<in> set (map (editor_id \<circ> view_editor) (visibleTextEditors s)))"

text \<open>
  \<open>editor.setDecorations(decorationType, ranges)\<close>: the ranges replace those the editor
  had; nothing happens on an editor that is no longer open or once the decoration type
  is disposed.
\<close>

definition setDecorations :: "text_editor \<Rightarrow> text_range list \<Rightarrow> state \<Rightarrow> state" where
  "setDecorations ed rs s =
     (if decorationDisposed s then s
      else s\<lparr>visibleTextEditors :=
        map (\<lambda>v. if editor_id (view_editor v) = editor_id ed
                  then v\<lparr>view_decorations := rs\<rparr> else v)
            (visibleTextEditors s)\<rparr>)"

definition setContext :: "bool \<Rightarrow> state \<Rightarrow> state" where
  "setContext b s = s\<lparr>hasSuggestion := b\<rparr>"

definition showMessage :: "message \<Rightarrow> state \<Rightarrow> state" where
  "showMessage m s = s\<lparr>notifications := notifications s @ [m]\<rparr>"

definition console_log :: "string \<Rightarrow> state \<Rightarrow> state" where
  "console_log l s = s\<lparr>console := console s @ [l]\<rparr>"

definition record_call :: "host_call \<Rightarrow> state \<Rightarrow> state" where
  "record_call c s = s\<lparr>trace := trace s @ [c]\<rparr>"

text \<open>
  The command \<open>workbench.action.closeAllEditors\<close> closes every text editor and every
  diff editor. The loaded documents stay: the host releases them on its own schedule.
\<close>

definition closeAllEditors :: "state \<Rightarrow> state" where
  "closeAllEditors s =
     record_call CloseAllEditors
       (s\<lparr>visibleTextEditors := [], activeTextEditor := None, diffEditors := []\<rparr>)"

text \<open>
  \<open>workspace.openTextDocument(uri)\<close> returns the loaded document, or loads it from
  what the URI resolves to, or throws. The document is returned as its URI.
  \<open>load_document\<close> is the resolution both this call and \<open>showTextDocument\<close> do.
\<close>

definition load_document :: "uri \<Rightarrow> state \<Rightarrow> state option" where
  "load_document u s =
     (case textDocuments s u of
        Some t \<Rightarrow> Some s
      | None \<Rightarrow>
          (case files s u of
             Some t \<Rightarrow> Some (s\<lparr>textDocuments := (textDocuments s)(u \<mapsto> t)\<rparr>)
           | None \<Rightarrow> None))"

definition openTextDocument :: "uri \<Rightarrow> state \<Rightarrow> uri outcome" where
  "openTextDocument u s =
     (let s1 = record_call (OpenTextDocument u) s in
      case load_document u s1 of
        Some s2 \<Rightarrow> (Inr u, s2)
      | None \<Rightarrow> (Inl (''cannot open '' @ u), s1))"

text \<open>
  \<open>window.showTextDocument(document)\<close> shows the document of that URI: it loads the
  document when needed (or throws), reveals the first editor already open on it or
  opens a new one, and makes that editor the active one.
\<close>

definition showTextDocument :: "uri \<Rightarrow> state \<Rightarrow> text_editor outcome" where
  "showTextDocument u s =
     (let s1 = record_call (ShowTextDocument u) s in
      case load_document u s1 of
        None \<Rightarrow> (Inl (''Failed to show text document '' @ u), s1)
      | Some s2 \<Rightarrow>
          (case find (\<lambda>v. document_uri (view_editor v) = u) (visibleTextEditors s2) of
             Some v \<Rightarrow> (Inr (view_editor v), s2\<lparr>activeTextEditor := Some (view_editor v)\<rparr>)
           | None \<Rightarrow>
               (let ed = \<lparr>editor_id = nextEditorId s2, document_uri = u\<rparr> in
                (Inr ed,
                 s2\<lparr>visibleTextEditors :=
                       visibleTextEditors s2 @ [\<lparr>view_editor = ed, view_decorations = []\<rparr>],
                     activeTextEditor := Some ed,
                     nextEditorId := Suc (nextEditorId s2)\<rparr>))))"

text \<open>
  \<open>editor.edit(b => b.replace(range, text))\<close>: throws on an editor that was closed;
  otherwise the host answers whether it applied the replacement, and the document text
  changes only when it did.
\<close>

definition edit :: "text_editor \<Rightarrow> text_range \<Rightarrow> string \<Rightarrow> state \<Rightarrow> bool outcome" where
  "edit ed r c s =
     (if \<not> is_open ed s
      then (Inl ''TextEditor#edit not possible on closed editors'', s)
      else
        (case textDocuments s (document_uri ed) of
           None \<Rightarrow> (Inr False, record_call (EditCall (document_uri ed) r c False) s)
         | Some t \<Rightarrow>
             if edit_ok s
             then (Inr True,
                   record_call (EditCall (document_uri ed) r c True)
                     (s\<lparr>textDocuments :=
                          (textDocuments s)(document_uri ed \<mapsto> replace_range t r c)\<rparr>))
             else (Inr False, record_call (EditCall (document_uri ed) r c False) s)))"

text \<open>\<open>document.save()\<close> answers whether the text was written.\<close>

definition save :: "uri \<Rightarrow> state \<Rightarrow> bool \<times> state" where
  "save u s =
     (case textDocuments s u of
        None \<Rightarrow> (False, record_call (SaveCall u False) s)
      | Some t \<Rightarrow>
          if save_ok s
          then (True, record_call (SaveCall u True) (s\<lparr>files := (files s)(u \<mapsto> t)\<rparr>))
          else (False, record_call (SaveCall u False) s))"

text \<open>
  The command \<open>vscode.diff\<close> with its option \<open>preview\<close>, or it throws. A diff
  editor already open on the same two URIs is revealed and no second one is opened.
  Otherwise a new diff editor is opened; as a preview editor it takes the place of the
  preview editors that were open. The diff editor gets the focus, so that no text editor
  is the active one afterwards; with the layout \<open>diff_in_place\<close> it opens in the place
  of the text editor that was active, which is then no longer visible.
\<close>

definition vscode_diff ::
  "uri \<Rightarrow> uri \<Rightarrow> string \<Rightarrow> string \<Rightarrow> bool \<Rightarrow> state \<Rightarrow> unit outcome" where
  "vscode_diff l r lc rc preview s =
     (let s1 = record_call (DiffCall l r) s in
      if \<not> diff_ok s then (Inl ''command vscode.diff failed'', s1)
      else
        (let shown =
               (case find (\<lambda>d. diff_left d = l \<and> diff_right d = r) (diffEditors s) of
                  Some d \<Rightarrow> diffEditors s
                | None \<Rightarrow>
                    (if preview then filter (\<lambda>d. \<not> diff_preview d) (diffEditors s)
                     else diffEditors s) @
                    [\<lparr>diff_left = l, diff_right = r, diff_original = lc,
                      diff_proposed = rc, diff_preview = preview\<rparr>]);
             visible =
               (case activeTextEditor s of
                  Some a \<Rightarrow>
                    if diff_in_place s
                    then filter (\<lambda>v. editor_id (view_editor v) \<noteq> editor_id a)
                           (visibleTextEditors s)
                    else visibleTextEditors s
                | None \<Rightarrow> visibleTextEditors s)
         in (Inr (),
             s1\<lparr>diffEditors := shown, visibleTextEditors := visible,
                activeTextEditor := None\<rparr>)))"

text \<open>
  \<open>config.get<boolean>(key)\<close> is the setting or \<open>undefined\<close>, which a condition reads as
  false; \<open>config.get<boolean>(key, d)\<close> is the setting or the default \<open>d\<close>.
\<close>

definition config_get :: "bool option \<Rightarrow> bool" where
  "config_get v = (case v of None \<Rightarrow> False | Some b \<Rightarrow> b)"

definition config_get_default :: "bool option \<Rightarrow> bool \<Rightarrow> bool" where
  "config_get_default v d = (case v of None \<Rightarrow> d | Some b \<Rightarrow> b)"

subsection \<open>Methods that are the same in both copies of the class\<close>

text \<open>\<open>clearDecorations\<close> (lines 215-219): on the editor stored in the suggestion.\<close>

definition clearDecorations :: "state \<Rightarrow> state" where
  "clearDecorations s =
     (case currentSuggestion s of
        None \<Rightarrow> s
      | Some p \<Rightarrow> setDecorations (editor p) [] s)"

text \<open>\<open>cleanup\<close> (lines 221-225).\<close>

definition cleanup :: "state \<Rightarrow> state" where
  "cleanup s = setContext False ((clearDecorations s)\<lparr>currentSuggestion := None\<rparr>)"

text \<open>
  \<open>showDiff\<close> (lines 153-202): registers the two content providers, pushes both
  registrations on \<open>context.subscriptions\<close> and runs \<open>vscode.diff\<close> with
  \<open>{ preview: true }\<close>; when that throws, the proposed code goes to an output channel.
  \<open>originalDoc.fileName\<close> is taken to be the URI.
\<close>

definition showDiff :: "uri \<Rightarrow> text_range \<Rightarrow> string \<Rightarrow> state \<Rightarrow> state" where
  "showDiff originalDoc r c s =
     (let originalCode = (case textDocuments s originalDoc of
                            Some t \<Rightarrow> getText t r
                          | None \<Rightarrow> []);
          leftUri = ''ai-original:'' @ originalDoc;
          rightUri = ''ai-suggestion:'' @ originalDoc;
          s1 = s\<lparr>subscriptions := subscriptions s @ [''ai-original'', ''ai-suggestion'']\<rparr>
      in case vscode_diff leftUri rightUri originalCode c True s1 of
           (Inr _, s2) \<Rightarrow> s2
         | (Inl e, s2) \<Rightarrow>
             (console_log (''Failed to show diff: '' @ e) s2)
               \<lparr>outputChannel := [''=== SUGGESTED CODE ==='', c]\<rparr>)"

text \<open>
  \<open>showSuggestion\<close> (lines 23-74). The prompt is shown without waiting for an answer.
  With \<open>showInlineDecorations\<close> on, the highlighting is left to a callback that
  \<open>setTimeout\<close> runs 500 ms later, after the method has returned: the method only
  schedules it. (The message text is kept without its leading pictograph.)
\<close>

definition showSuggestion ::
  "text_editor \<Rightarrow> text_range \<Rightarrow> string \<Rightarrow> string \<Rightarrow> state \<Rightarrow> state" where
  "showSuggestion ed r c e s =
     (let s1 = clearDecorations s;
          s2 = s1\<lparr>currentSuggestion :=
                    Some \<lparr>editor = ed, sugg_range = r, newCode = c, explanation = e\<rparr>\<rparr>;
          s3 = setContext True s2;
          s4 = showDiff (document_uri ed) r c s3;
          s5 = showMessage
                 (Information (e @ [CHR 0x0A, CHR 0x0A] @
                    ''Review the diff and press Ctrl+Enter to accept or Esc to reject''))
                 s4
      in if config_get (showInlineDecorations s5)
         then s5\<lparr>timers := timers s5 @ [(document_uri ed, r)]\<rparr>
         else s5)"



text \<open>
  \<open>dispose\<close> (lines 227-230). Disposing the decoration type removes its decorations
  from every editor.
\<close>

definition dispose :: "state \<Rightarrow> state" where
  "dispose s =
     (let s1 = clearDecorations s
      in s1\<lparr>decorationDisposed := True,
            visibleTextEditors :=
              map (\<lambda>v. v\<lparr>view_decorations := []\<rparr>) (visibleTextEditors s1)\<rparr>)"

subsection \<open>\<open>acceptSuggestion\<close> and \<open>rejectSuggestion\<close> of \<open>suggestionManager.ts\<close>\<close>

text \<open>The first two statements of the \<open>catch\<close> block (lines 117-118).\<close>

definition accept_report :: "string \<Rightarrow> state \<Rightarrow> state" where
  "accept_report msg s =
     console_log (''Error applying suggestion: '' @ msg)
       (showMessage (ErrorMessage (''Error applying suggestion: '' @ msg)) s)"

text \<open>The inner \<open>try\<close> of the \<open>catch\<close> block (lines 121-126).\<close>

definition accept_reopen :: "suggestion \<Rightarrow> state \<Rightarrow> state" where
  "accept_reopen p s =
     (case openTextDocument (document_uri (editor p)) s of
        (Inl e, s1) \<Rightarrow> console_log (''Could not reopen document: '' @ e) s1
      | (Inr _, s1) \<Rightarrow>
          (case showTextDocument (document_uri (editor p)) s1 of
             (Inl e, s2) \<Rightarrow> console_log (''Could not reopen document: '' @ e) s2
           | (Inr _, s2) \<Rightarrow> s2))"

definition accept_catch :: "suggestion \<Rightarrow> string \<Rightarrow> state \<Rightarrow> state" where
  "accept_catch p msg s = accept_reopen p (accept_report msg s)"

text \<open>
  Lines 113-114, the end of the \<open>try\<close> block. (The message text is kept without
  its leading check mark and the blank after it.)
\<close>

definition accept_finish :: "state \<Rightarrow> state" where
  "accept_finish s =
     cleanup (showMessage (Information ''AI suggestion accepted and applied!'') s)"

text \<open>
  \<open>acceptSuggestion\<close> (lines 76-128). The wait of 100 ms (line 89) changes nothing
  in the state.
\<close>

definition acceptSuggestion :: "state \<Rightarrow> state" where
  "acceptSuggestion s =
     (case currentSuggestion s of
        None \<Rightarrow> showMessage (Warning ''No suggestion to accept'') s
      | Some p \<Rightarrow>
          (let s1 = closeAllEditors s in
           case openTextDocument (document_uri (editor p)) s1 of
             (Inl e, s2) \<Rightarrow> accept_catch p e s2
           | (Inr document, s2) \<Rightarrow>
               (case showTextDocument document s2 of
                  (Inl e, s3) \<Rightarrow> accept_catch p e s3
                | (Inr newEditor, s3) \<Rightarrow>
                    (case edit newEditor (sugg_range p) (newCode p) s3 of
                       (Inl e, s4) \<Rightarrow> accept_catch p e s4
                     | (Inr success, s4) \<Rightarrow>
                         if \<not> success
                         then accept_catch p ''Failed to apply edit'' s4
                         else if config_get_default (autoSave s4) True
                         then accept_finish (snd (save document s4))
                         else accept_finish s4))))"

text \<open>\<open>rejectSuggestion\<close> (lines 130-151): \<open>cleanup\<close> is in the \<open>finally\<close> block.\<close>

definition rejectSuggestion :: "state \<Rightarrow> state" where
  "rejectSuggestion s =
     (case currentSuggestion s of
        None \<Rightarrow> s
      | Some p \<Rightarrow>
          cleanup
            (case openTextDocument (document_uri (editor p)) (closeAllEditors s) of
               (Inl e, s2) \<Rightarrow> console_log (''Error rejecting suggestion: '' @ e) s2
             | (Inr _, s2) \<Rightarrow>
                 (case showTextDocument (document_uri (editor p)) s2 of
                    (Inl e, s3) \<Rightarrow> console_log (''Error rejecting suggestion: '' @ e) s3
                  | (Inr _, s3) \<Rightarrow>
                      showMessage (Information ''AI suggestion rejected'') s3)))"

subsection \<open>\<open>acceptSuggestion\<close> and \<open>rejectSuggestion\<close> of the second copy\<close>

text \<open>
  The \<open>catch\<close> block (\<open>part_004\<close>, lines 127-128) and lines 123-124. (The success
  message is kept without its leading check mark and the blank after it.)
\<close>

definition accept_catch_alt :: "string \<Rightarrow> state \<Rightarrow> state" where
  "accept_catch_alt msg s =
     console_log (''Error applying suggestion: '' @ msg)
       (showMessage (ErrorMessage (''Failed to apply suggestion: '' @ msg)) s)"

definition accept_finish_alt :: "state \<Rightarrow> state" where
  "accept_finish_alt s = cleanup (showMessage (Information ''AI suggestion accepted!'') s)"

text \<open>
  The editor the edit goes through when the document is still loaded (\<open>part_004\<close>,
  lines 86-89): the active editor if it shows the suggestion's document, else the editor
  stored with the suggestion.
\<close>

definition targetEditor :: "suggestion \<Rightarrow> state \<Rightarrow> text_editor" where
  "targetEditor p s =
     (case activeTextEditor s of
        Some activeEditor \<Rightarrow>
          if document_uri activeEditor = document_uri (editor p) then activeEditor
          else editor p
      | None \<Rightarrow> editor p)"

text \<open>
  \<open>acceptSuggestion\<close> (\<open>part_004\<close>, lines 76-130). The value of \<open>edit\<close> is
  dropped in both branches, and \<open>autoSave\<close> is read without a default.
\<close>

definition acceptSuggestion_alt :: "state \<Rightarrow> state" where
  "acceptSuggestion_alt s =
     (case currentSuggestion s of
        None \<Rightarrow> showMessage (Warning ''No suggestion to accept'') s
      | Some p \<Rightarrow>
          (let u = document_uri (editor p);
               isDocumentOpen = (textDocuments s u \<noteq> None)
           in if \<not> isDocumentOpen
              then
                (case openTextDocument u s of
                   (Inl e, s1) \<Rightarrow> accept_catch_alt e s1
                 | (Inr document, s1) \<Rightarrow>
                     (case showTextDocument document s1 of
                        (Inl e, s2) \<Rightarrow> accept_catch_alt e s2
                      | (Inr newEditor, s2) \<Rightarrow>
                          (case edit newEditor (sugg_range p) (newCode p) s2 of
                             (Inl e, s3) \<Rightarrow> accept_catch_alt e s3
                           | (Inr _, s3) \<Rightarrow>
                               if config_get (autoSave s3)
                               then accept_finish_alt (snd (save document s3))
                               else accept_finish_alt s3)))
              else
                (case edit (targetEditor p s) (sugg_range p) (newCode p) s of
                   (Inl e, s1) \<Rightarrow> accept_catch_alt e s1
                 | (Inr _, s1) \<Rightarrow>
                     if config_get (autoSave s1)
                     then accept_finish_alt (snd (save (document_uri (targetEditor p s)) s1))
                     else accept_finish_alt s1)))"

text \<open>\<open>rejectSuggestion\<close> (\<open>part_004\<close>, lines 132-139).\<close>

definition rejectSuggestion_alt :: "state \<Rightarrow> state" where
  "rejectSuggestion_alt s =
     (case currentSuggestion s of
        None \<Rightarrow> s
      | Some p \<Rightarrow> cleanup (showMessage (Information ''AI suggestion rejected'') s))"

subsection \<open>Suspension points of \<open>acceptSuggestion\<close>\<close>

text \<open>
  The host runs the extension on one thread: a call runs until its next \<open>await\<close>,
  and other calls may run before it is resumed. A task is a call of \<open>acceptSuggestion\<close>
  (\<open>suggestionManager.ts\<close>) suspended at one of its awaits, with the locals it holds:
  the suggestion destructured at line 82, the document and the editor of lines 92-93.
\<close>

datatype accept_task =
    AwaitCloseAll suggestion
  | AwaitDelay suggestion
  | AwaitOpen suggestion
  | AwaitShow suggestion uri
  | AwaitEdit suggestion uri text_editor
  | AwaitSave suggestion uri
  | AwaitReopen suggestion
  | AwaitReshow suggestion
  | Finished

text \<open>
  The call itself (lines 77-86): the test of \<open>currentSuggestion\<close>, then the first
  await. That test is the only one the method makes before it touches the host.
\<close>

definition accept_call :: "state \<Rightarrow> accept_task \<times> state" where
  "accept_call s =
     (case currentSuggestion s of
        None \<Rightarrow> (Finished, showMessage (Warning ''No suggestion to accept'') s)
      | Some p \<Rightarrow> (AwaitCloseAll p, s))"

text \<open>
  Resuming a task: the host completes the awaited operation and the method runs
  to its next await or to its end.
\<close>

fun accept_resume :: "accept_task \<Rightarrow> state \<Rightarrow> accept_task \<times> state" where
  "accept_resume (AwaitCloseAll p) s = (AwaitDelay p, closeAllEditors s)"
| "accept_resume (AwaitDelay p) s = (AwaitOpen p, s)"
| "accept_resume (AwaitOpen p) s =
     (case openTextDocument (document_uri (editor p)) s of
        (Inl e, s1) \<Rightarrow> (AwaitReopen p, accept_report e s1)
      | (Inr document, s1) \<Rightarrow> (AwaitShow p document, s1))"
| "accept_resume (AwaitShow p document) s =
     (case showTextDocument document s of
        (Inl e, s1) \<Rightarrow> (AwaitReopen p, accept_report e s1)
      | (Inr newEditor, s1) \<Rightarrow> (AwaitEdit p document newEditor, s1))"
| "accept_resume (AwaitEdit p document newEditor) s =
     (case edit newEditor (sugg_range p) (newCode p) s of
        (Inl e, s1) \<Rightarrow> (AwaitReopen p, accept_report e s1)
      | (Inr success, s1) \<Rightarrow>
          if \<not> success then (AwaitReopen p, accept_report ''Failed to apply edit'' s1)
          else if config_get_default (autoSave s1) True then (AwaitSave p document, s1)
          else (Finished, accept_finish s1))"
| "accept_resume (AwaitSave p document) s = (Finished, accept_finish (snd (save document s)))"
| "accept_resume (AwaitReopen p) s =
     (case openTextDocument (document_uri (editor p)) s of
        (Inl e, s1) \<Rightarrow> (Finished, console_log (''Could not reopen document: '' @ e) s1)
      | (Inr _, s1) \<Rightarrow> (AwaitReshow p, s1))"
| "accept_resume (AwaitReshow p) s =
     (case showTextDocument (document_uri (editor p)) s of
        (Inl e, s1) \<Rightarrow> (Finished, console_log (''Could not reopen document: '' @ e) s1)
      | (Inr _, s1) \<Rightarrow> (Finished, s1))"
| "accept_resume Finished s = (Finished, s)"

fun task_rank :: "accept_task \<Rightarrow> nat" where
  "task_rank (AwaitCloseAll p) = 8"
| "task_rank (AwaitDelay p) = 7"
| "task_rank (AwaitOpen p) = 6"
| "task_rank (AwaitShow p d) = 5"
| "task_rank (AwaitEdit p d e) = 4"
| "task_rank (AwaitSave p d) = 3"
| "task_rank (AwaitReopen p) = 2"
| "task_rank (AwaitReshow p) = 1"
| "task_rank Finished = 0"

text \<open>A task resumed again and again, with no other call in between, until it ends.\<close>

function accept_run :: "accept_task \<Rightarrow> state \<Rightarrow> state" where
  "accept_run t s =
     (if t = Finished then s
      else case accept_resume t s of (t1, s1) \<Rightarrow> accept_run t1 s1)"
  by pat_completeness auto
termination
proof (relation "measure (\<lambda>(t, s). task_rank t)")
  show "wf (measure (\<lambda>(t, s). task_rank t))" by simp
next
  fix t :: accept_task and s :: state and t1 s1
  assume live: "t \<noteq> Finished" and step: "(t1, s1) = accept_resume t s"
  have "task_rank (fst (accept_resume t s)) < task_rank t"
    using live by (cases t) (auto split: prod.splits sum.splits)
  with step show "((t1, s1), (t, s)) \<in> measure (\<lambda>(t, s). task_rank t)"
    by (simp add: fst_def split: prod.splits)
qed

text \<open>
  Two calls of \<open>acceptSuggestion\<close>, the second made while the first is suspended at its
  first await; then the first runs to its end, then the second.
\<close>

definition accept_twice_interleaved :: "state \<Rightarrow> state" where
  "accept_twice_interleaved s =
     (case accept_call s of
        (t1, s1) \<Rightarrow>
          (case accept_call s1 of
             (t2, s2) \<Rightarrow> accept_run t2 (accept_run t1 s2)))"

text \<open>A call run to its end before anything else runs.\<close>

definition accept_to_completion :: "state \<Rightarrow> state" where
  "accept_to_completion s = (case accept_call s of (t, s1) \<Rightarrow> accept_run t s1)"

text \<open>
  The edit calls, the edits the host applied and the save calls in a trace; the
  text a URI stands for, loaded or not.
\<close>

definition applied_edits :: "host_call list \<Rightarrow> host_call list" where
  "applied_edits cs = filter (\<lambda>c. case c of EditCall u r t b \<Rightarrow> b | _ \<Rightarrow> False) cs"

definition edit_calls :: "host_call list \<Rightarrow> host_call list" where
  "edit_calls cs = filter (\<lambda>c. case c of EditCall u r t b \<Rightarrow> True | _ \<Rightarrow> False) cs"

definition save_calls :: "host_call list \<Rightarrow> host_call list" where
  "save_calls cs = filter (\<lambda>c. case c of SaveCall u b \<Rightarrow> True | _ \<Rightarrow> False) cs"

definition resolve_text :: "uri \<Rightarrow> state \<Rightarrow> string option" where
  "resolve_text u s =
     (case textDocuments s u of
        Some t \<Rightarrow> Some t
      | None \<Rightarrow> files s u)"

subsection \<open>States used as examples\<close>

text \<open>
  One file \<open>a.ts\<close> with the text \<open>0123456789\<close>, loaded and shown in one editor; no
  suggestion yet; every setting on; a host that accepts edits, saves and diffs, and
  opens a diff editor beside the text editor.
\<close>

definition editor0 :: text_editor where
  "editor0 = \<lparr>editor_id = 0, document_uri = ''a.ts''\<rparr>"

definition idle_state :: state where
  "idle_state =
     \<lparr>currentSuggestion = None, decorationDisposed = False, subscriptions = [],
      files = [''a.ts'' \<mapsto> ''0123456789''],
      textDocuments = [''a.ts'' \<mapsto> ''0123456789''],
      visibleTextEditors = [\<lparr>view_editor = editor0, view_decorations = []\<rparr>],
      activeTextEditor = Some editor0, diffEditors = [], nextEditorId = 1,
      hasSuggestion = False, notifications = [], console = [], outputChannel = [],
      timers = [], autoSave = Some True, showInlineDecorations = Some True,
      edit_ok = True, save_ok = True, diff_ok = True, diff_in_place = False,
      trace = []\<rparr>"

text \<open>The suggestion to replace the offsets 2 to 5 of \<open>a.ts\<close> by \<open>XY\<close>.\<close>

definition suggestion0 :: suggestion where
  "suggestion0 =
     \<lparr>editor = editor0, sugg_range = \<lparr>range_start = 2, range_end = 5\<rparr>,
      newCode = ''XY'', explanation = ''shorter''\<rparr>"

text \<open>
  That suggestion presented from \<open>idle_state\<close> and the user back in the editor of
  \<open>a.ts\<close>: the diff editor is open, the highlighting callback has not run yet.
\<close>

definition presented_state :: state where
  "presented_state =
     \<lparr>currentSuggestion = Some suggestion0, decorationDisposed = False,
      subscriptions = [''ai-original'', ''ai-suggestion''],
      files = [''a.ts'' \<mapsto> ''0123456789''],
      textDocuments = [''a.ts'' \<mapsto> ''0123456789''],
      visibleTextEditors = [\<lparr>view_editor = editor0, view_decorations = []\<rparr>],
      activeTextEditor = Some editor0,
      diffEditors = [\<lparr>diff_left = ''ai-original:a.ts'', diff_right = ''ai-suggestion:a.ts'',
                       diff_original = ''234'', diff_proposed = ''XY'', diff_preview = True\<rparr>],
      nextEditorId = 1,
      hasSuggestion = True,
      notifications = [Information (''shorter'' @ [CHR 0x0A, CHR 0x0A] @
          ''Review the diff and press Ctrl+Enter to accept or Esc to reject'')],
      console = [], outputChannel = [],
      timers = [(''a.ts'', \<lparr>range_start = 2, range_end = 5\<rparr>)],
      autoSave = Some True, showInlineDecorations = Some True,
      edit_ok = True, save_ok = True, diff_ok = True, diff_in_place = False,
      trace = [DiffCall ''ai-original:a.ts'' ''ai-suggestion:a.ts'']\<rparr>"

text \<open>
  The same, after the editor and the document were closed: nothing is open
  and \<open>a.ts\<close> is no longer loaded.
\<close>

definition closed_state :: state where
  "closed_state =
     presented_state\<lparr>visibleTextEditors := [], activeTextEditor := None,
                     diffEditors := [], textDocuments := Map.empty\<rparr>"





section \<open>Properties\<close>

subsection \<open>What each call leaves\<close>

lemmas host_defs = closeAllEditors_def openTextDocument_def showTextDocument_def edit_def save_def
  load_document_def record_call_def is_open_def showMessage_def console_log_def setContext_def
  setDecorations_def vscode_diff_def
lemmas mgr_defs = cleanup_def clearDecorations_def accept_finish_def accept_catch_def accept_report_def
  accept_reopen_def config_get_def config_get_default_def

lemma resolve_text_cases:
  assumes "resolve_text u s = Some t"
  obtains "textDocuments s u = Some t" | "textDocuments s u = None" "files s u = Some t"
  using assms by (auto simp: resolve_text_def split: option.splits)

lemma resolve_text_None:
  "resolve_text u s = None \<longleftrightarrow> textDocuments s u = None \<and> files s u = None"
  by (simp add: resolve_text_def split: option.splits)

lemmas presented_state_eq = presented_state_def

text \<open>
  \<open>presented_state\<close> is what \<open>showSuggestion\<close> leaves from \<open>idle_state\<close>, with the
  editor of \<open>a.ts\<close> active again.
\<close>

lemma presented_state_reached:
  "presented_state =
     (showSuggestion editor0 \<lparr>range_start = 2, range_end = 5\<rparr> ''XY'' ''shorter'' idle_state)
       \<lparr>activeTextEditor := Some editor0\<rparr>"
  by (simp add: presented_state_def idle_state_def suggestion0_def editor0_def showSuggestion_def
      showDiff_def getText_def host_defs mgr_defs Let_def)

text \<open>
  The four ways a call of \<open>acceptSuggestion\<close> can go, each with the state it leaves:
  nothing pending; the edit applied; the edit refused by the host; the document not found.
\<close>

lemma acceptSuggestion_success:
  assumes "currentSuggestion s = Some p"
    and "resolve_text (document_uri (editor p)) s = Some t"
    and "edit_ok s"
  shows "acceptSuggestion s =
    s\<lparr>currentSuggestion := None,
      textDocuments := (textDocuments s)
        (document_uri (editor p) \<mapsto> replace_range t (sugg_range p) (newCode p)),
      files := (if config_get_default (autoSave s) True \<and> save_ok s
                then (files s)
                  (document_uri (editor p) \<mapsto> replace_range t (sugg_range p) (newCode p))
                else files s),
      visibleTextEditors :=
        [\<lparr>view_editor = \<lparr>editor_id = nextEditorId s, document_uri = document_uri (editor p)\<rparr>,
          view_decorations = []\<rparr>],
      activeTextEditor :=
        Some \<lparr>editor_id = nextEditorId s, document_uri = document_uri (editor p)\<rparr>,
      diffEditors := [],
      nextEditorId := Suc (nextEditorId s),
      hasSuggestion := False,
      notifications := notifications s @ [Information ''AI suggestion accepted and applied!''],
      trace := trace s @ [CloseAllEditors, OpenTextDocument (document_uri (editor p)),
                 ShowTextDocument (document_uri (editor p)),
                 EditCall (document_uri (editor p)) (sugg_range p) (newCode p) True]
               @ (if config_get_default (autoSave s) True
                  then [SaveCall (document_uri (editor p)) (save_ok s)] else [])\<rparr>"
proof (rule resolve_text_cases [OF assms(2)])
  assume "textDocuments s (document_uri (editor p)) = Some t"
  with assms(1,3) show ?thesis
    by (simp add: acceptSuggestion_def host_defs mgr_defs Let_def)
next
  assume "textDocuments s (document_uri (editor p)) = None"
    and "files s (document_uri (editor p)) = Some t"
  with assms(1,3) show ?thesis
    by (simp add: acceptSuggestion_def host_defs mgr_defs Let_def)
qed

lemma acceptSuggestion_idle:
  "currentSuggestion s = None \<Longrightarrow>
   acceptSuggestion s = s\<lparr>notifications := notifications s @ [Warning ''No suggestion to accept'']\<rparr>"
  by (simp add: acceptSuggestion_def showMessage_def)

lemma acceptSuggestion_edit_rejected:
  assumes "currentSuggestion s = Some p"
    and "resolve_text (document_uri (editor p)) s = Some t"
    and "\<not> edit_ok s"
  shows "acceptSuggestion s =
    s\<lparr>textDocuments := (textDocuments s)(document_uri (editor p) \<mapsto> t),
      visibleTextEditors := [\<lparr>view_editor = \<lparr>editor_id = nextEditorId s, document_uri = document_uri (editor p)\<rparr>, view_decorations = []\<rparr>],
      activeTextEditor := Some \<lparr>editor_id = nextEditorId s, document_uri = document_uri (editor p)\<rparr>,
      diffEditors := [],
      nextEditorId := Suc (nextEditorId s),
      notifications := notifications s @ [ErrorMessage ''Error applying suggestion: Failed to apply edit''],
      console := console s @ [''Error applying suggestion: Failed to apply edit''],
      trace := trace s @ [CloseAllEditors, OpenTextDocument (document_uri (editor p)),
                 ShowTextDocument (document_uri (editor p)),
                 EditCall (document_uri (editor p)) (sugg_range p) (newCode p) False,
                 OpenTextDocument (document_uri (editor p)),
                 ShowTextDocument (document_uri (editor p))]\<rparr>"
proof (rule resolve_text_cases [OF assms(2)])
  assume "textDocuments s (document_uri (editor p)) = Some t"
  with assms(1,3) show ?thesis
    by (simp add: acceptSuggestion_def host_defs mgr_defs Let_def fun_upd_idem)
next
  assume "textDocuments s (document_uri (editor p)) = None" "files s (document_uri (editor p)) = Some t"
  with assms(1,3) show ?thesis
    by (simp add: acceptSuggestion_def host_defs mgr_defs Let_def)
qed

lemma acceptSuggestion_unresolved:
  assumes "currentSuggestion s = Some p"
    and "resolve_text (document_uri (editor p)) s = None"
  shows "acceptSuggestion s =
    s\<lparr>visibleTextEditors := [], activeTextEditor := None, diffEditors := [],
      notifications := notifications s @
        [ErrorMessage (''Error applying suggestion: cannot open '' @ document_uri (editor p))],
      console := console s @
        [''Error applying suggestion: cannot open '' @ document_uri (editor p),
         ''Could not reopen document: cannot open '' @ document_uri (editor p)],
      trace := trace s @ [CloseAllEditors, OpenTextDocument (document_uri (editor p)),
                 OpenTextDocument (document_uri (editor p))]\<rparr>"
  using assms
  by (simp add: resolve_text_None acceptSuggestion_def host_defs mgr_defs Let_def)

lemma rejectSuggestion_idle: "currentSuggestion s = None \<Longrightarrow> rejectSuggestion s = s"
  by (simp add: rejectSuggestion_def)

lemma rejectSuggestion_resolved:
  assumes "currentSuggestion s = Some p"
    and "resolve_text (document_uri (editor p)) s = Some t"
  shows "rejectSuggestion s =
    s\<lparr>currentSuggestion := None,
      textDocuments := (textDocuments s)(document_uri (editor p) \<mapsto> t),
      visibleTextEditors := [\<lparr>view_editor = \<lparr>editor_id = nextEditorId s, document_uri = document_uri (editor p)\<rparr>, view_decorations = []\<rparr>],
      activeTextEditor := Some \<lparr>editor_id = nextEditorId s, document_uri = document_uri (editor p)\<rparr>,
      diffEditors := [],
      nextEditorId := Suc (nextEditorId s),
      hasSuggestion := False,
      notifications := notifications s @ [Information ''AI suggestion rejected''],
      trace := trace s @ [CloseAllEditors, OpenTextDocument (document_uri (editor p)),
                 ShowTextDocument (document_uri (editor p))]\<rparr>"
proof (rule resolve_text_cases [OF assms(2)])
  assume "textDocuments s (document_uri (editor p)) = Some t"
  with assms(1) show ?thesis
    by (simp add: rejectSuggestion_def host_defs mgr_defs Let_def fun_upd_idem)
next
  assume "textDocuments s (document_uri (editor p)) = None" "files s (document_uri (editor p)) = Some t"
  with assms(1) show ?thesis
    by (simp add: rejectSuggestion_def host_defs mgr_defs Let_def)
qed

lemma rejectSuggestion_unresolved:
  assumes "currentSuggestion s = Some p"
    and "resolve_text (document_uri (editor p)) s = None"
  shows "rejectSuggestion s =
    s\<lparr>currentSuggestion := None,
      visibleTextEditors := [], activeTextEditor := None, diffEditors := [],
      hasSuggestion := False,
      console := console s @ [''Error rejecting suggestion: cannot open '' @ document_uri (editor p)],
      trace := trace s @ [CloseAllEditors, OpenTextDocument (document_uri (editor p))]\<rparr>"
  using assms
  by (simp add: resolve_text_None rejectSuggestion_def host_defs mgr_defs Let_def)

lemma acceptSuggestion_alt_idle:
  "currentSuggestion s = None \<Longrightarrow>
   acceptSuggestion_alt s = s\<lparr>notifications := notifications s @ [Warning ''No suggestion to accept'']\<rparr>"
  by (simp add: acceptSuggestion_alt_def showMessage_def)

lemma rejectSuggestion_alt_idle: "currentSuggestion s = None \<Longrightarrow> rejectSuggestion_alt s = s"
  by (simp add: rejectSuggestion_alt_def)

lemma rejectSuggestion_alt_frame:
  "textDocuments (rejectSuggestion_alt s) = textDocuments s \<and>
   files (rejectSuggestion_alt s) = files s \<and>
   trace (rejectSuggestion_alt s) = trace s"
  by (simp add: rejectSuggestion_alt_def host_defs mgr_defs split: option.splits)

lemma rejectSuggestion_frame:
  "resolve_text d (rejectSuggestion s) = resolve_text d s \<and>
   files (rejectSuggestion s) = files s \<and>
   edit_calls (trace (rejectSuggestion s)) = edit_calls (trace s) \<and>
   (textDocuments s d \<noteq> None \<longrightarrow> textDocuments (rejectSuggestion s) d = textDocuments s d)"
proof (cases "currentSuggestion s")
  case None
  then show ?thesis by (simp add: rejectSuggestion_idle)
next
  case (Some p)
  show ?thesis
  proof (cases "resolve_text (document_uri (editor p)) s")
    case None
    note eq = rejectSuggestion_unresolved [OF Some None]
    have "textDocuments (rejectSuggestion s) = textDocuments s"
      and "files (rejectSuggestion s) = files s"
      and "trace (rejectSuggestion s) =
             trace s @ [CloseAllEditors, OpenTextDocument (document_uri (editor p))]"
      by (simp_all add: eq)
    then show ?thesis
      by (simp add: resolve_text_def edit_calls_def split: option.splits)
  next
    case (Some t)
    note eq = rejectSuggestion_resolved [OF \<open>currentSuggestion s = Some p\<close> Some]
    have docs: "textDocuments (rejectSuggestion s) =
                  (textDocuments s)(document_uri (editor p) \<mapsto> t)"
      and fs: "files (rejectSuggestion s) = files s"
      and tr: "trace (rejectSuggestion s) =
             trace s @ [CloseAllEditors, OpenTextDocument (document_uri (editor p)),
                        ShowTextDocument (document_uri (editor p))]"
      by (simp_all add: eq)
    from Some show ?thesis
      by (auto simp: docs fs tr resolve_text_def edit_calls_def split: option.splits)
  qed
qed


text \<open>
  The second copy's \<open>acceptSuggestion\<close>: the document not loaded (the branch that
  reopens it), the document loaded with its editors open, the document loaded with the
  stored editor closed, and the document not found.
\<close>

lemmas alt_defs = accept_catch_alt_def accept_finish_alt_def cleanup_def clearDecorations_def
  config_get_def

lemma find_Some_holds: "find P xs = Some x \<Longrightarrow> P x \<and> x \<in> set xs"
  by (induction xs) (auto split: if_splits)

lemma acceptSuggestion_alt_closed_document:
  assumes "currentSuggestion s = Some p"
    and "textDocuments s (document_uri (editor p)) = None"
    and "files s (document_uri (editor p)) = Some t"
  shows "trace (acceptSuggestion_alt s) =
           trace s @ [OpenTextDocument (document_uri (editor p)),
                      ShowTextDocument (document_uri (editor p)),
                      EditCall (document_uri (editor p)) (sugg_range p) (newCode p) (edit_ok s)]
           @ (if config_get (autoSave s)
              then [SaveCall (document_uri (editor p)) (save_ok s)] else []) \<and>
         textDocuments (acceptSuggestion_alt s) =
           (textDocuments s)(document_uri (editor p) \<mapsto>
              (if edit_ok s then replace_range t (sugg_range p) (newCode p) else t)) \<and>
         files (acceptSuggestion_alt s) =
           (if config_get (autoSave s) \<and> save_ok s
            then (files s)(document_uri (editor p) \<mapsto>
              (if edit_ok s then replace_range t (sugg_range p) (newCode p) else t))
            else files s) \<and>
         notifications (acceptSuggestion_alt s) =
           notifications s @ [Information ''AI suggestion accepted!''] \<and>
         console (acceptSuggestion_alt s) = console s \<and>
         currentSuggestion (acceptSuggestion_alt s) = None \<and>
         hasSuggestion (acceptSuggestion_alt s) = False"
proof (cases "find (\<lambda>v. document_uri (view_editor v) = document_uri (editor p))
                (visibleTextEditors s)")
  case None
  with assms show ?thesis
    by (simp add: acceptSuggestion_alt_def host_defs alt_defs Let_def)
next
  case (Some v)
  from find_Some_holds [OF Some]
  have "document_uri (view_editor v) = document_uri (editor p)"
    and "editor_id (view_editor v) \<in> (editor_id \<circ> view_editor) ` set (visibleTextEditors s)"
    by auto
  with Some assms show ?thesis
    by (simp add: acceptSuggestion_alt_def host_defs alt_defs Let_def)
qed

lemma targetEditor_uri: "document_uri (targetEditor p s) = document_uri (editor p)"
  by (simp add: targetEditor_def split: option.splits)

lemma acceptSuggestion_alt_open_document:
  assumes "currentSuggestion s = Some p"
    and "textDocuments s (document_uri (editor p)) = Some t"
    and "is_open (targetEditor p s) s"
  shows "trace (acceptSuggestion_alt s) =
           trace s @ [EditCall (document_uri (editor p)) (sugg_range p) (newCode p) (edit_ok s)]
           @ (if config_get (autoSave s)
              then [SaveCall (document_uri (editor p)) (save_ok s)] else []) \<and>
         textDocuments (acceptSuggestion_alt s) =
           (textDocuments s)(document_uri (editor p) \<mapsto>
              (if edit_ok s then replace_range t (sugg_range p) (newCode p) else t)) \<and>
         files (acceptSuggestion_alt s) =
           (if config_get (autoSave s) \<and> save_ok s
            then (files s)(document_uri (editor p) \<mapsto>
              (if edit_ok s then replace_range t (sugg_range p) (newCode p) else t))
            else files s) \<and>
         notifications (acceptSuggestion_alt s) =
           notifications s @ [Information ''AI suggestion accepted!''] \<and>
         console (acceptSuggestion_alt s) = console s \<and>
         currentSuggestion (acceptSuggestion_alt s) = None \<and>
         hasSuggestion (acceptSuggestion_alt s) = False"
proof -
  from assms(3) have "edit (targetEditor p s) (sugg_range p) (newCode p) s =
      (if edit_ok s
       then (Inr True,
             s\<lparr>textDocuments := (textDocuments s)
                  (document_uri (editor p) \<mapsto> replace_range t (sugg_range p) (newCode p)),
               trace := trace s @
                  [EditCall (document_uri (editor p)) (sugg_range p) (newCode p) True]\<rparr>)
       else (Inr False,
             s\<lparr>trace := trace s @
                  [EditCall (document_uri (editor p)) (sugg_range p) (newCode p) False]\<rparr>))"
    by (simp add: edit_def targetEditor_uri assms(2) record_call_def)
  with assms(1,2) show ?thesis
    by (simp add: acceptSuggestion_alt_def targetEditor_uri save_def record_call_def
        showMessage_def setContext_def setDecorations_def alt_defs Let_def fun_upd_idem)
qed

lemma acceptSuggestion_alt_closed_editor:
  assumes "currentSuggestion s = Some p"
    and "textDocuments s (document_uri (editor p)) = Some t"
    and "\<not> is_open (targetEditor p s) s"
  shows "acceptSuggestion_alt s =
    s\<lparr>notifications := notifications s @
         [ErrorMessage ''Failed to apply suggestion: TextEditor#edit not possible on closed editors''],
      console := console s @
         [''Error applying suggestion: TextEditor#edit not possible on closed editors'']\<rparr>"
proof -
  from assms(3) have "edit (targetEditor p s) (sugg_range p) (newCode p) s =
      (Inl ''TextEditor#edit not possible on closed editors'', s)"
    by (simp add: edit_def)
  with assms(1,2) show ?thesis
    by (simp add: acceptSuggestion_alt_def showMessage_def console_log_def alt_defs Let_def)
qed

lemma acceptSuggestion_alt_unresolved:
  assumes "currentSuggestion s = Some p"
    and "resolve_text (document_uri (editor p)) s = None"
  shows "acceptSuggestion_alt s =
    s\<lparr>notifications := notifications s @
         [ErrorMessage (''Failed to apply suggestion: cannot open '' @ document_uri (editor p))],
      console := console s @
         [''Error applying suggestion: cannot open '' @ document_uri (editor p)],
      trace := trace s @ [OpenTextDocument (document_uri (editor p))]\<rparr>"
  using assms
  by (simp add: resolve_text_None acceptSuggestion_alt_def host_defs alt_defs Let_def)

lemma closed_state_eq:
  "closed_state =
     \<lparr>currentSuggestion = Some suggestion0, decorationDisposed = False,
      subscriptions = [''ai-original'', ''ai-suggestion''],
      files = [''a.ts'' \<mapsto> ''0123456789''],
      textDocuments = Map.empty,
      visibleTextEditors = [],
      activeTextEditor = None,
      diffEditors = [],
      nextEditorId = 1,
      hasSuggestion = True,
      notifications = [Information (''shorter'' @ [CHR 0x0A, CHR 0x0A] @
          ''Review the diff and press Ctrl+Enter to accept or Esc to reject'')],
      console = [], outputChannel = [],
      timers = [(''a.ts'', \<lparr>range_start = 2, range_end = 5\<rparr>)],
      autoSave = Some True, showInlineDecorations = Some True,
      edit_ok = True, save_ok = True, diff_ok = True, diff_in_place = False,
      trace = [DiffCall ''ai-original:a.ts'' ''ai-suggestion:a.ts'']\<rparr>"
  by (simp add: closed_state_def presented_state_eq)

subsection \<open>Presenting\<close>






subsection \<open>Calls of \<open>acceptSuggestion\<close> that overlap\<close>

text \<open>
  A task run to its end from each of its suspension points; from the first one it is
  the method \<open>acceptSuggestion\<close> as embedded above.
\<close>

declare accept_run.simps [simp del]

lemma accept_run_Finished: "accept_run Finished s = s"
  by (subst accept_run.simps) simp

lemma accept_run_step:
  "t \<noteq> Finished \<Longrightarrow>
   accept_run t s = accept_run (fst (accept_resume t s)) (snd (accept_resume t s))"
  by (subst accept_run.simps) (simp split: prod.splits)

lemma accept_run_Reshow:
  "accept_run (AwaitReshow p) s =
     (case showTextDocument (document_uri (editor p)) s of
        (Inl e, s1) \<Rightarrow> console_log (''Could not reopen document: '' @ e) s1
      | (Inr _, s1) \<Rightarrow> s1)"
  by (simp add: accept_run_step accept_run_Finished split: prod.splits sum.splits)

lemma accept_run_Reopen: "accept_run (AwaitReopen p) s = accept_reopen p s"
  by (simp add: accept_run_step [of "AwaitReopen p"] accept_run_Reshow accept_run_Finished
      accept_reopen_def split: prod.splits sum.splits)

lemma accept_run_Save:
  "accept_run (AwaitSave p document) s = accept_finish (snd (save document s))"
  by (simp add: accept_run_step accept_run_Finished)

lemma accept_run_Edit:
  "accept_run (AwaitEdit p document newEditor) s =
     (case edit newEditor (sugg_range p) (newCode p) s of
        (Inl e, s4) \<Rightarrow> accept_catch p e s4
      | (Inr success, s4) \<Rightarrow>
          if \<not> success then accept_catch p ''Failed to apply edit'' s4
          else if config_get_default (autoSave s4) True
          then accept_finish (snd (save document s4))
          else accept_finish s4)"
  by (simp add: accept_run_step [of "AwaitEdit p document newEditor"] accept_run_Reopen
      accept_run_Save accept_run_Finished accept_catch_def split: prod.splits sum.splits)

lemma accept_run_Show:
  "accept_run (AwaitShow p document) s =
     (case showTextDocument document s of
        (Inl e, s3) \<Rightarrow> accept_catch p e s3
      | (Inr newEditor, s3) \<Rightarrow> accept_run (AwaitEdit p document newEditor) s3)"
  by (simp add: accept_run_step [of "AwaitShow p document"] accept_run_Reopen
      accept_catch_def split: prod.splits sum.splits)

lemma accept_run_Open:
  "accept_run (AwaitOpen p) s =
     (case openTextDocument (document_uri (editor p)) s of
        (Inl e, s2) \<Rightarrow> accept_catch p e s2
      | (Inr document, s2) \<Rightarrow> accept_run (AwaitShow p document) s2)"
  by (simp add: accept_run_step [of "AwaitOpen p"] accept_run_Reopen
      accept_catch_def split: prod.splits sum.splits)

lemma accept_run_CloseAll:
  "accept_run (AwaitCloseAll p) s = accept_run (AwaitOpen p) (closeAllEditors s)"
  by (simp add: accept_run_step [of "AwaitCloseAll p"] accept_run_step [of "AwaitDelay p"])

lemma accept_to_completion_eq: "accept_to_completion s = acceptSuggestion s"
  by (simp add: accept_to_completion_def accept_call_def acceptSuggestion_def
      accept_run_Finished accept_run_CloseAll accept_run_Open accept_run_Show accept_run_Edit
      Let_def split: option.splits prod.splits sum.splits)

text \<open>
  One call applies at most one edit, and when it applied one, nothing is pending
  afterwards; with nothing pending a call leaves the trace as it is.
\<close>

lemma acceptSuggestion_applies_once:
  "applied_edits (trace (acceptSuggestion s)) = applied_edits (trace s) \<or>
   length (applied_edits (trace (acceptSuggestion s))) = Suc (length (applied_edits (trace s)))
     \<and> currentSuggestion (acceptSuggestion s) = None"
proof (cases "currentSuggestion s")
  case None
  then show ?thesis
    by (simp add: acceptSuggestion_idle)
next
  case (Some p)
  show ?thesis
  proof (cases "resolve_text (document_uri (editor p)) s")
    case None
    then show ?thesis
      by (simp add: acceptSuggestion_unresolved [OF Some None] applied_edits_def)
  next
    case (Some t)
    show ?thesis
    proof (cases "edit_ok s")
      case True
      show ?thesis
        by (simp add: acceptSuggestion_success [OF \<open>currentSuggestion s = Some p\<close> Some True]
            applied_edits_def)
    next
      case False
      show ?thesis
        by (simp add: acceptSuggestion_edit_rejected [OF \<open>currentSuggestion s = Some p\<close> Some False]
            applied_edits_def)
    qed
  qed
qed

lemma acceptSuggestion_idle_stays:
  "currentSuggestion s = None \<Longrightarrow>
   currentSuggestion (acceptSuggestion s) = None \<and> trace (acceptSuggestion s) = trace s"
  by (simp add: acceptSuggestion_idle)

lemma sequential_accepts_invariant:
  "applied_edits (trace ((acceptSuggestion ^^ n) s)) = applied_edits (trace s) \<or>
   length (applied_edits (trace ((acceptSuggestion ^^ n) s))) =
     Suc (length (applied_edits (trace s))) \<and>
   currentSuggestion ((acceptSuggestion ^^ n) s) = None"
proof (induction n)
  case 0
  show ?case by simp
next
  case (Suc n)
  let ?s = "(acceptSuggestion ^^ n) s"
  from Suc.IH show ?case
  proof
    assume same: "applied_edits (trace ?s) = applied_edits (trace s)"
    with acceptSuggestion_applies_once [of ?s] show ?thesis
      by auto
  next
    assume "length (applied_edits (trace ?s)) = Suc (length (applied_edits (trace s))) \<and>
            currentSuggestion ?s = None"
    with acceptSuggestion_idle_stays [of ?s] show ?thesis
      by simp
  qed
qed

text \<open>
  Claim C5, as the code has it. The class has no field for a call in progress: the one
  test \<open>acceptSuggestion\<close> makes is whether \<open>currentSuggestion\<close> is set, and it is
  cleared only by \<open>cleanup\<close> at the end of a successful call. So what holds is this.
  When calls of \<open>acceptSuggestion\<close> run one after another, each to its end, at most one
  edit is applied however many calls are made: a call that applied the edit leaves
  nothing pending, and a call with nothing pending is ignored with a warning.
\<close>

theorem sequential_accepts_apply_once:
  "accept_to_completion s = acceptSuggestion s \<and>
   length (applied_edits (trace ((accept_to_completion ^^ n) s))) \<le>
     Suc (length (applied_edits (trace s))) \<and>
   (currentSuggestion s = None \<longrightarrow>
      accept_to_completion s =
        s\<lparr>notifications := notifications s @ [Warning ''No suggestion to accept'']\<rparr>) \<and>
   (applied_edits (trace (accept_to_completion s)) \<noteq> applied_edits (trace s) \<longrightarrow>
      currentSuggestion (accept_to_completion s) = None)"
proof -
  have eq: "accept_to_completion = acceptSuggestion"
    by (rule ext) (rule accept_to_completion_eq)
  from sequential_accepts_invariant [of n s]
  have "length (applied_edits (trace ((acceptSuggestion ^^ n) s))) \<le>
     Suc (length (applied_edits (trace s)))"
    by auto
  moreover from acceptSuggestion_applies_once [of s]
  have "applied_edits (trace (acceptSuggestion s)) \<noteq> applied_edits (trace s) \<longrightarrow>
      currentSuggestion (acceptSuggestion s) = None"
    by auto
  ultimately show ?thesis
    by (simp add: eq acceptSuggestion_idle)
qed

text \<open>Three calls in a row on the presented example apply one edit.\<close>

theorem sequential_accepts_apply_once_witness:
  "currentSuggestion idle_state = None \<and>
   notifications (accept_to_completion idle_state) = [Warning ''No suggestion to accept''] \<and>
   applied_edits (trace presented_state) = [] \<and>
   applied_edits (trace (accept_to_completion presented_state)) =
     [EditCall ''a.ts'' \<lparr>range_start = 2, range_end = 5\<rparr> ''XY'' True] \<and>
   currentSuggestion (accept_to_completion presented_state) = None \<and>
   length (applied_edits (trace ((accept_to_completion ^^ 3) presented_state))) \<le> 1"
proof -
  have idle: "currentSuggestion idle_state = None" "notifications idle_state = []"
    by (simp_all add: idle_state_def)
  have before: "applied_edits (trace presented_state) = []"
    by (simp add: presented_state_eq applied_edits_def)
  have after: "applied_edits (trace (accept_to_completion presented_state)) =
     [EditCall ''a.ts'' \<lparr>range_start = 2, range_end = 5\<rparr> ''XY'' True]"
    by code_simp
  have warned: "accept_to_completion idle_state =
      idle_state\<lparr>notifications := notifications idle_state @
        [Warning ''No suggestion to accept'']\<rparr>"
    using sequential_accepts_apply_once [of idle_state 0] idle(1) by blast
  have bound: "length (applied_edits (trace ((accept_to_completion ^^ 3) presented_state))) \<le>
      Suc (length (applied_edits (trace presented_state)))"
    using sequential_accepts_apply_once [of presented_state 3] by blast
  have "applied_edits (trace (accept_to_completion presented_state)) \<noteq>
      applied_edits (trace presented_state)"
    by (simp add: before after)
  then have cleared: "currentSuggestion (accept_to_completion presented_state) = None"
    using sequential_accepts_apply_once [of presented_state 3] by blast
  from warned bound cleared idle before after show ?thesis
    by simp
qed

text \<open>
  The claim as written has a second call ignored while the first is suspended. In
  \<open>accept_twice_interleaved\<close> the second call is made while the first waits for
  \<open>closeAllEditors\<close>; \<open>currentSuggestion\<close> is still set, so the second call goes ahead,
  and when both have run the edit was applied twice: \<open>a.ts\<close> reads \<open>01XY6789\<close>, not
  \<open>01XY56789\<close>.
\<close>

theorem interleaved_accepts_counterexample:
  "applied_edits (trace (accept_twice_interleaved presented_state)) =
     [EditCall ''a.ts'' \<lparr>range_start = 2, range_end = 5\<rparr> ''XY'' True,
      EditCall ''a.ts'' \<lparr>range_start = 2, range_end = 5\<rparr> ''XY'' True] \<and>
   textDocuments (accept_twice_interleaved presented_state) ''a.ts'' = Some ''01XY6789'' \<and>
   textDocuments (acceptSuggestion presented_state) ''a.ts'' = Some ''01XY56789''"
  by code_simp

subsection \<open>Accepting after the document was closed\<close>

text \<open>
  \<open>suggestionManager.ts\<close>. Let a suggestion be pending whose editor is no longer open,
  and let the host resolve the document's URI to the text \<open>t\<close> and accept edits. Then
  \<open>acceptSuggestion\<close> closes the editors, opens the document by its URI, shows it in a
  new editor, and replaces exactly the target range: the document's text becomes the
  text before the range, the new code, the text after the range; every other document
  is as before; one edit was applied; the success message is shown and nothing is
  pending. The second copy's \<open>acceptSuggestion\<close> ends with the same text when the
  document itself is no longer loaded, the case in which it reopens the document.
\<close>

theorem accept_after_close:
  assumes "currentSuggestion s = Some p"
    and "\<not> is_open (editor p) s"
    and "resolve_text (document_uri (editor p)) s = Some t"
    and "edit_ok s"
  shows "textDocuments (acceptSuggestion s) =
           (textDocuments s)(document_uri (editor p) \<mapsto>
              take (range_start (sugg_range p)) t @ newCode p @ drop (range_end (sugg_range p)) t) \<and>
         (\<exists>rest. trace (acceptSuggestion s) =
            trace s @ [CloseAllEditors, OpenTextDocument (document_uri (editor p)),
                       ShowTextDocument (document_uri (editor p)),
                       EditCall (document_uri (editor p)) (sugg_range p) (newCode p) True] @ rest) \<and>
         applied_edits (trace (acceptSuggestion s)) =
           applied_edits (trace s) @
             [EditCall (document_uri (editor p)) (sugg_range p) (newCode p) True] \<and>
         activeTextEditor (acceptSuggestion s) =
           Some \<lparr>editor_id = nextEditorId s, document_uri = document_uri (editor p)\<rparr> \<and>
         is_open \<lparr>editor_id = nextEditorId s, document_uri = document_uri (editor p)\<rparr>
           (acceptSuggestion s) \<and>
         notifications (acceptSuggestion s) =
           notifications s @ [Information ''AI suggestion accepted and applied!''] \<and>
         currentSuggestion (acceptSuggestion s) = None \<and>
         (textDocuments s (document_uri (editor p)) = None \<longrightarrow>
            textDocuments (acceptSuggestion_alt s) =
              (textDocuments s)(document_uri (editor p) \<mapsto>
                 take (range_start (sugg_range p)) t @ newCode p @
                 drop (range_end (sugg_range p)) t) \<and>
            applied_edits (trace (acceptSuggestion_alt s)) =
              applied_edits (trace s) @
                [EditCall (document_uri (editor p)) (sugg_range p) (newCode p) True] \<and>
            notifications (acceptSuggestion_alt s) =
              notifications s @ [Information ''AI suggestion accepted!''] \<and>
            currentSuggestion (acceptSuggestion_alt s) = None)"
proof -
  note eq = acceptSuggestion_success [OF assms(1,3,4)]
  have primary: "textDocuments (acceptSuggestion s) =
           (textDocuments s)(document_uri (editor p) \<mapsto>
              take (range_start (sugg_range p)) t @ newCode p @ drop (range_end (sugg_range p)) t)"
    "trace (acceptSuggestion s) =
            trace s @ [CloseAllEditors, OpenTextDocument (document_uri (editor p)),
                       ShowTextDocument (document_uri (editor p)),
                       EditCall (document_uri (editor p)) (sugg_range p) (newCode p) True] @
            (if config_get_default (autoSave s) True
                  then [SaveCall (document_uri (editor p)) (save_ok s)] else [])"
    "activeTextEditor (acceptSuggestion s) =
           Some \<lparr>editor_id = nextEditorId s, document_uri = document_uri (editor p)\<rparr>"
    "is_open \<lparr>editor_id = nextEditorId s, document_uri = document_uri (editor p)\<rparr>
           (acceptSuggestion s)"
    "notifications (acceptSuggestion s) =
           notifications s @ [Information ''AI suggestion accepted and applied!'']"
    "currentSuggestion (acceptSuggestion s) = None"
    by (simp_all add: eq replace_range_def is_open_def)
  have applied: "applied_edits (trace (acceptSuggestion s)) =
           applied_edits (trace s) @
             [EditCall (document_uri (editor p)) (sugg_range p) (newCode p) True]"
    by (simp add: primary(2) applied_edits_def)
  have alt: "textDocuments (acceptSuggestion_alt s) =
              (textDocuments s)(document_uri (editor p) \<mapsto>
                 take (range_start (sugg_range p)) t @ newCode p @
                 drop (range_end (sugg_range p)) t) \<and>
            applied_edits (trace (acceptSuggestion_alt s)) =
              applied_edits (trace s) @
                [EditCall (document_uri (editor p)) (sugg_range p) (newCode p) True] \<and>
            notifications (acceptSuggestion_alt s) =
              notifications s @ [Information ''AI suggestion accepted!''] \<and>
            currentSuggestion (acceptSuggestion_alt s) = None"
    if closed: "textDocuments s (document_uri (editor p)) = None"
  proof -
    from assms(3) closed have "files s (document_uri (editor p)) = Some t"
      by (simp add: resolve_text_def)
    from acceptSuggestion_alt_closed_document [OF assms(1) closed this] assms(4)
    show ?thesis
      by (simp add: replace_range_def applied_edits_def)
  qed
  from primary applied alt show ?thesis
    by blast
qed

text \<open>The example suggestion accepted after \<open>a.ts\<close> was closed, in both copies.\<close>

theorem accept_after_close_witness:
  "currentSuggestion closed_state = Some suggestion0 \<and>
   \<not> is_open (editor suggestion0) closed_state \<and>
   resolve_text (document_uri (editor suggestion0)) closed_state = Some ''0123456789'' \<and>
   edit_ok closed_state \<and>
   textDocuments closed_state ''a.ts'' = None \<and>
   textDocuments (acceptSuggestion closed_state) ''a.ts'' = Some ''01XY56789'' \<and>
   textDocuments (acceptSuggestion_alt closed_state) ''a.ts'' = Some ''01XY56789'' \<and>
   currentSuggestion (acceptSuggestion closed_state) = None \<and>
   currentSuggestion (acceptSuggestion_alt closed_state) = None"
proof -
  have h: "currentSuggestion closed_state = Some suggestion0"
    "\<not> is_open (editor suggestion0) closed_state"
    "resolve_text (document_uri (editor suggestion0)) closed_state = Some ''0123456789''"
    "edit_ok closed_state"
    and closed: "textDocuments closed_state ''a.ts'' = None"
    by (simp_all add: closed_state_eq suggestion0_def editor0_def is_open_def resolve_text_def)
  from accept_after_close [OF h] h closed show ?thesis
    by (simp add: suggestion0_def editor0_def)
qed

text \<open>
  A diff editor that opens in the place of the active editor leaves the state in which
  the second copy is called below: the editor stored with the suggestion is closed and
  the document is still loaded.
\<close>

lemma displaced_by_diff:
  "showSuggestion editor0 \<lparr>range_start = 2, range_end = 5\<rparr> ''XY'' ''shorter''
     (idle_state\<lparr>diff_in_place := True\<rparr>) =
   presented_state\<lparr>visibleTextEditors := [], activeTextEditor := None, diff_in_place := True\<rparr>"
  by (simp add: presented_state_def idle_state_def suggestion0_def editor0_def showSuggestion_def
      showDiff_def getText_def host_defs mgr_defs Let_def)

text \<open>
  Claim C2 says that for every pending suggestion whose editor was closed after it was
  presented, \<open>acceptSuggestion\<close> still succeeds: it reopens the document by its URI and
  applies the edit. The second copy of the class looks only at whether the document is
  still loaded (\<open>part_004\<close>, lines 92-96). With the editor closed and the document still
  loaded it does not reopen anything: it edits through the stored editor (lines 86-89
  and 112), which throws. On the presented example with its editor closed, no call
  reaches the host, \<open>a.ts\<close> keeps its text and the error is shown, whereas
  \<open>acceptSuggestion\<close> of \<open>suggestionManager.ts\<close> applies the edit on the same state.
\<close>

theorem accept_alt_fails_behind_closed_editor:
  "textDocuments
     (acceptSuggestion_alt
        (presented_state\<lparr>visibleTextEditors := [], activeTextEditor := None\<rparr>)) ''a.ts'' =
     Some ''0123456789'' \<and>
   trace
     (acceptSuggestion_alt
        (presented_state\<lparr>visibleTextEditors := [], activeTextEditor := None\<rparr>)) =
     [DiffCall ''ai-original:a.ts'' ''ai-suggestion:a.ts''] \<and>
   notifications
     (acceptSuggestion_alt
        (presented_state\<lparr>visibleTextEditors := [], activeTextEditor := None\<rparr>)) =
     [Information (''shorter'' @ [CHR 0x0A, CHR 0x0A] @
        ''Review the diff and press Ctrl+Enter to accept or Esc to reject''),
      ErrorMessage
        ''Failed to apply suggestion: TextEditor#edit not possible on closed editors''] \<and>
   textDocuments
     (acceptSuggestion
        (presented_state\<lparr>visibleTextEditors := [], activeTextEditor := None\<rparr>)) ''a.ts'' =
     Some ''01XY56789''"
  by code_simp

subsection \<open>Accepting closes every editor\<close>

text \<open>
  Claim C9. Every call of \<open>acceptSuggestion\<close> (\<open>suggestionManager.ts\<close>) with a
  suggestion pending first runs \<open>closeAllEditors\<close> and only then opens the target
  document. Afterwards no diff editor is open and no text editor but the one newly
  opened on the target document: every editor that was open before, whatever it showed,
  is gone. When the accept succeeds, that new editor is the only one open.
\<close>

theorem accept_closes_all_editors:
  assumes "currentSuggestion s = Some p"
  shows "(\<exists>rest. trace (acceptSuggestion s) =
            trace s @ [CloseAllEditors, OpenTextDocument (document_uri (editor p))] @ rest) \<and>
         diffEditors (acceptSuggestion s) = [] \<and>
         (\<forall>v \<in> set (visibleTextEditors (acceptSuggestion s)).
            view_editor v = \<lparr>editor_id = nextEditorId s, document_uri = document_uri (editor p)\<rparr>) \<and>
         (resolve_text (document_uri (editor p)) s \<noteq> None \<and> edit_ok s \<longrightarrow>
            visibleTextEditors (acceptSuggestion s) =
              [\<lparr>view_editor =
                  \<lparr>editor_id = nextEditorId s, document_uri = document_uri (editor p)\<rparr>,
                view_decorations = []\<rparr>])"
proof (cases "resolve_text (document_uri (editor p)) s")
  case None
  show ?thesis
    by (simp add: acceptSuggestion_unresolved [OF assms None] None)
next
  case (Some t)
  show ?thesis
  proof (cases "edit_ok s")
    case True
    show ?thesis
      by (simp add: acceptSuggestion_success [OF assms Some True])
  next
    case False
    show ?thesis
      by (simp add: acceptSuggestion_edit_rejected [OF assms Some False] False)
  qed
qed

text \<open>From the presented example: editor 0 and the diff view are replaced by editor 1.\<close>

theorem accept_closes_all_editors_witness:
  "currentSuggestion presented_state = Some suggestion0 \<and>
   resolve_text (document_uri (editor suggestion0)) presented_state \<noteq> None \<and>
   edit_ok presented_state \<and>
   visibleTextEditors presented_state = [\<lparr>view_editor = editor0, view_decorations = []\<rparr>] \<and>
   length (diffEditors presented_state) = 1 \<and>
   visibleTextEditors (acceptSuggestion presented_state) =
     [\<lparr>view_editor = \<lparr>editor_id = 1, document_uri = ''a.ts''\<rparr>, view_decorations = []\<rparr>] \<and>
   diffEditors (acceptSuggestion presented_state) = []"
proof -
  have h: "currentSuggestion presented_state = Some suggestion0"
    and r: "resolve_text (document_uri (editor suggestion0)) presented_state \<noteq> None"
      "edit_ok presented_state"
    and v: "visibleTextEditors presented_state = [\<lparr>view_editor = editor0, view_decorations = []\<rparr>]"
      "length (diffEditors presented_state) = 1" "nextEditorId presented_state = 1"
    by (simp_all add: presented_state_eq suggestion0_def editor0_def resolve_text_def)
  from accept_closes_all_editors [OF h] h r v show ?thesis
    by (simp add: suggestion0_def editor0_def)
qed

subsection \<open>Saving after the edit\<close>

text \<open>
  Claim C8, as the code has it. On a successful accept (the document resolves and the
  host applies the edit) \<open>save\<close> is called, after the edit, exactly when the setting
  \<open>autoSave\<close> reads true; \<open>suggestionManager.ts\<close> reads an unset setting as true, the
  second copy as false. The answer of \<open>save\<close> is not looked at: whether or not the
  document was written, the edit stays applied, the success message is the only
  notification, nothing is logged, and nothing is pending afterwards. For the second
  copy the accept is successful when, in case the document is loaded, the editor it
  edits through (\<open>targetEditor\<close>) is open.
\<close>

theorem accept_save_policy:
  assumes "currentSuggestion s = Some p"
    and "resolve_text (document_uri (editor p)) s = Some t"
    and "edit_ok s"
  shows "trace (acceptSuggestion s) =
           trace s @ [CloseAllEditors, OpenTextDocument (document_uri (editor p)),
                      ShowTextDocument (document_uri (editor p)),
                      EditCall (document_uri (editor p)) (sugg_range p) (newCode p) True] @
           (if config_get_default (autoSave s) True
            then [SaveCall (document_uri (editor p)) (save_ok s)] else []) \<and>
         textDocuments (acceptSuggestion s) (document_uri (editor p)) =
           Some (replace_range t (sugg_range p) (newCode p)) \<and>
         notifications (acceptSuggestion s) =
           notifications s @ [Information ''AI suggestion accepted and applied!''] \<and>
         console (acceptSuggestion s) = console s \<and>
         currentSuggestion (acceptSuggestion s) = None \<and>
         ((textDocuments s (document_uri (editor p)) \<noteq> None \<longrightarrow>
             is_open (targetEditor p s) s) \<longrightarrow>
          (\<exists>pre. trace (acceptSuggestion_alt s) =
             trace s @ pre @
             [EditCall (document_uri (editor p)) (sugg_range p) (newCode p) True] @
             (if config_get (autoSave s)
              then [SaveCall (document_uri (editor p)) (save_ok s)] else [])) \<and>
          textDocuments (acceptSuggestion_alt s) (document_uri (editor p)) =
            Some (replace_range t (sugg_range p) (newCode p)) \<and>
          notifications (acceptSuggestion_alt s) =
            notifications s @ [Information ''AI suggestion accepted!''] \<and>
          console (acceptSuggestion_alt s) = console s \<and>
          currentSuggestion (acceptSuggestion_alt s) = None)"
proof -
  note eq = acceptSuggestion_success [OF assms]
  have primary: "trace (acceptSuggestion s) =
           trace s @ [CloseAllEditors, OpenTextDocument (document_uri (editor p)),
                      ShowTextDocument (document_uri (editor p)),
                      EditCall (document_uri (editor p)) (sugg_range p) (newCode p) True] @
           (if config_get_default (autoSave s) True
            then [SaveCall (document_uri (editor p)) (save_ok s)] else [])"
    "textDocuments (acceptSuggestion s) (document_uri (editor p)) =
           Some (replace_range t (sugg_range p) (newCode p))"
    "notifications (acceptSuggestion s) =
           notifications s @ [Information ''AI suggestion accepted and applied!'']"
    "console (acceptSuggestion s) = console s"
    "currentSuggestion (acceptSuggestion s) = None"
    by (simp_all add: eq)
  have alt: "(\<exists>pre. trace (acceptSuggestion_alt s) =
             trace s @ pre @
             [EditCall (document_uri (editor p)) (sugg_range p) (newCode p) True] @
             (if config_get (autoSave s)
              then [SaveCall (document_uri (editor p)) (save_ok s)] else [])) \<and>
          textDocuments (acceptSuggestion_alt s) (document_uri (editor p)) =
            Some (replace_range t (sugg_range p) (newCode p)) \<and>
          notifications (acceptSuggestion_alt s) =
            notifications s @ [Information ''AI suggestion accepted!''] \<and>
          console (acceptSuggestion_alt s) = console s \<and>
          currentSuggestion (acceptSuggestion_alt s) = None"
    if shown: "textDocuments s (document_uri (editor p)) \<noteq> None \<longrightarrow>
             is_open (targetEditor p s) s"
  proof (cases "textDocuments s (document_uri (editor p))")
    case None
    with assms(2) have "files s (document_uri (editor p)) = Some t"
      by (simp add: resolve_text_def)
    from acceptSuggestion_alt_closed_document [OF assms(1) None this] assms(3)
    have "trace (acceptSuggestion_alt s) =
             trace s @ [OpenTextDocument (document_uri (editor p)),
                        ShowTextDocument (document_uri (editor p))] @
             [EditCall (document_uri (editor p)) (sugg_range p) (newCode p) True] @
             (if config_get (autoSave s)
              then [SaveCall (document_uri (editor p)) (save_ok s)] else [])"
      and "textDocuments (acceptSuggestion_alt s) (document_uri (editor p)) =
            Some (replace_range t (sugg_range p) (newCode p))"
      and "notifications (acceptSuggestion_alt s) =
            notifications s @ [Information ''AI suggestion accepted!'']"
      and "console (acceptSuggestion_alt s) = console s"
      and "currentSuggestion (acceptSuggestion_alt s) = None"
      by simp_all
    then show ?thesis by blast
  next
    case (Some t')
    with assms(2) have "t' = t" by (simp add: resolve_text_def)
    with Some shown acceptSuggestion_alt_open_document [OF assms(1), of t] assms(3)
    have "trace (acceptSuggestion_alt s) =
             trace s @ [] @
             [EditCall (document_uri (editor p)) (sugg_range p) (newCode p) True] @
             (if config_get (autoSave s)
              then [SaveCall (document_uri (editor p)) (save_ok s)] else [])"
      and "textDocuments (acceptSuggestion_alt s) (document_uri (editor p)) =
            Some (replace_range t (sugg_range p) (newCode p))"
      and "notifications (acceptSuggestion_alt s) =
            notifications s @ [Information ''AI suggestion accepted!'']"
      and "console (acceptSuggestion_alt s) = console s"
      and "currentSuggestion (acceptSuggestion_alt s) = None"
      by simp_all
    then show ?thesis by blast
  qed
  from primary alt show ?thesis by blast
qed

lemma unsaved_state_facts:
  "currentSuggestion (presented_state\<lparr>save_ok := False\<rparr>) = Some suggestion0"
  "resolve_text (document_uri (editor suggestion0)) (presented_state\<lparr>save_ok := False\<rparr>) =
     Some ''0123456789''"
  "edit_ok (presented_state\<lparr>save_ok := False\<rparr>)"
  "is_open (targetEditor suggestion0 (presented_state\<lparr>save_ok := False\<rparr>))
     (presented_state\<lparr>save_ok := False\<rparr>)"
  by (simp_all add: presented_state_eq suggestion0_def editor0_def resolve_text_def is_open_def
      targetEditor_def)

text \<open>A host that cannot write the file: the edit is applied, \<open>save\<close> answers false.\<close>

theorem accept_save_policy_witness:
  "currentSuggestion (presented_state\<lparr>save_ok := False\<rparr>) = Some suggestion0 \<and>
   resolve_text (document_uri (editor suggestion0)) (presented_state\<lparr>save_ok := False\<rparr>) =
     Some ''0123456789'' \<and>
   edit_ok (presented_state\<lparr>save_ok := False\<rparr>) \<and>
   is_open (targetEditor suggestion0 (presented_state\<lparr>save_ok := False\<rparr>))
     (presented_state\<lparr>save_ok := False\<rparr>) \<and>
   save_calls (trace (acceptSuggestion (presented_state\<lparr>save_ok := False\<rparr>))) =
     [SaveCall ''a.ts'' False] \<and>
   textDocuments (acceptSuggestion (presented_state\<lparr>save_ok := False\<rparr>)) ''a.ts'' =
     Some ''01XY56789'' \<and>
   currentSuggestion (acceptSuggestion (presented_state\<lparr>save_ok := False\<rparr>)) = None \<and>
   textDocuments (acceptSuggestion_alt (presented_state\<lparr>save_ok := False\<rparr>)) ''a.ts'' =
     Some ''01XY56789'' \<and>
   currentSuggestion (acceptSuggestion_alt (presented_state\<lparr>save_ok := False\<rparr>)) = None"
proof -
  have tr: "trace (presented_state\<lparr>save_ok := False\<rparr>) =
      [DiffCall ''ai-original:a.ts'' ''ai-suggestion:a.ts'']"
    and cfg: "autoSave (presented_state\<lparr>save_ok := False\<rparr>) = Some True"
      "save_ok (presented_state\<lparr>save_ok := False\<rparr>) = False"
    by (simp_all add: presented_state_eq)
  from accept_save_policy [OF unsaved_state_facts(1-3)] unsaved_state_facts tr cfg
  show ?thesis
    by (simp add: suggestion0_def editor0_def save_calls_def replace_range_def
        config_get_default_def)
qed

text \<open>
  The claim as written has a save failure reported. With the host unable to write, the
  call of \<open>save\<close> answers false, and all the user sees is the success message; the file
  keeps its old text.
\<close>

theorem save_failure_unreported_counterexample:
  "trace (acceptSuggestion (presented_state\<lparr>save_ok := False\<rparr>)) =
     [DiffCall ''ai-original:a.ts'' ''ai-suggestion:a.ts'', CloseAllEditors,
      OpenTextDocument ''a.ts'', ShowTextDocument ''a.ts'',
      EditCall ''a.ts'' \<lparr>range_start = 2, range_end = 5\<rparr> ''XY'' True,
      SaveCall ''a.ts'' False] \<and>
   notifications (acceptSuggestion (presented_state\<lparr>save_ok := False\<rparr>)) =
     [Information (''shorter'' @ [CHR 0x0A, CHR 0x0A] @
        ''Review the diff and press Ctrl+Enter to accept or Esc to reject''),
      Information ''AI suggestion accepted and applied!''] \<and>
   console (acceptSuggestion (presented_state\<lparr>save_ok := False\<rparr>)) = [] \<and>
   files (acceptSuggestion (presented_state\<lparr>save_ok := False\<rparr>)) ''a.ts'' =
     Some ''0123456789''"
  by (simp add: acceptSuggestion_success [OF unsaved_state_facts(1-3)])
     (simp add: presented_state_eq suggestion0_def editor0_def config_get_default_def)

subsection \<open>An edit the host refuses\<close>

text \<open>
  \<open>suggestionManager.ts\<close> tests the answer of \<open>edit\<close> (lines 103-105): when the host
  refuses the edit the error is shown, \<open>save\<close> is not called, no other edit is tried,
  no file is written and every URI stands for the text it stood for.
\<close>

lemma accept_edit_failure_aborts:
  assumes "currentSuggestion s = Some p"
    and "resolve_text (document_uri (editor p)) s = Some t"
    and "\<not> edit_ok s"
  shows "notifications (acceptSuggestion s) =
           notifications s @ [ErrorMessage ''Error applying suggestion: Failed to apply edit''] \<and>
         save_calls (trace (acceptSuggestion s)) = save_calls (trace s) \<and>
         edit_calls (trace (acceptSuggestion s)) =
           edit_calls (trace s) @
             [EditCall (document_uri (editor p)) (sugg_range p) (newCode p) False] \<and>
         applied_edits (trace (acceptSuggestion s)) = applied_edits (trace s) \<and>
         files (acceptSuggestion s) = files s \<and>
         resolve_text d (acceptSuggestion s) = resolve_text d s"
proof -
  note eq = acceptSuggestion_edit_rejected [OF assms]
  have "notifications (acceptSuggestion s) =
           notifications s @ [ErrorMessage ''Error applying suggestion: Failed to apply edit'']"
    and tr: "trace (acceptSuggestion s) =
       trace s @ [CloseAllEditors, OpenTextDocument (document_uri (editor p)),
                 ShowTextDocument (document_uri (editor p)),
                 EditCall (document_uri (editor p)) (sugg_range p) (newCode p) False,
                 OpenTextDocument (document_uri (editor p)),
                 ShowTextDocument (document_uri (editor p))]"
    and fs: "files (acceptSuggestion s) = files s"
    and docs: "textDocuments (acceptSuggestion s) =
                 (textDocuments s)(document_uri (editor p) \<mapsto> t)"
    by (simp_all add: eq)
  moreover from assms(2) have "resolve_text d (acceptSuggestion s) = resolve_text d s"
    by (auto simp: docs fs resolve_text_def split: option.splits)
  ultimately show ?thesis
    by (simp add: save_calls_def edit_calls_def applied_edits_def)
qed

text \<open>
  Claim C3 says that for every \<open>acceptSuggestion\<close> in which the host refuses the edit,
  an error is raised and nothing more is done: no save, no second edit. The second copy
  of the class drops the answer of \<open>edit\<close> (\<open>part_004\<close>, lines 101-103 and 112-114).
  From the presented example with a host that refuses edits, it calls \<open>save\<close>, shows the
  success message and clears the suggestion, although the edit was not applied.
\<close>

theorem accept_alt_ignores_edit_failure:
  "trace (acceptSuggestion_alt (presented_state\<lparr>edit_ok := False\<rparr>)) =
     [DiffCall ''ai-original:a.ts'' ''ai-suggestion:a.ts'',
      EditCall ''a.ts'' \<lparr>range_start = 2, range_end = 5\<rparr> ''XY'' False,
      SaveCall ''a.ts'' True] \<and>
   notifications (acceptSuggestion_alt (presented_state\<lparr>edit_ok := False\<rparr>)) =
     [Information (''shorter'' @ [CHR 0x0A, CHR 0x0A] @
        ''Review the diff and press Ctrl+Enter to accept or Esc to reject''),
      Information ''AI suggestion accepted!''] \<and>
   currentSuggestion (acceptSuggestion_alt (presented_state\<lparr>edit_ok := False\<rparr>)) = None"
  by code_simp

subsection \<open>The state after a call\<close>

text \<open>\<open>rejectSuggestion\<close> ends with nothing pending, in every state and in both copies.\<close>

lemma reject_returns_idle:
  "currentSuggestion (rejectSuggestion s) = None \<and>
   currentSuggestion (rejectSuggestion_alt s) = None \<and>
   (currentSuggestion s \<noteq> None \<longrightarrow>
      \<not> hasSuggestion (rejectSuggestion s) \<and> \<not> hasSuggestion (rejectSuggestion_alt s))"
proof (cases "currentSuggestion s")
  case None
  then show ?thesis
    by (simp add: rejectSuggestion_idle rejectSuggestion_alt_idle)
next
  case (Some p)
  have alt: "currentSuggestion (rejectSuggestion_alt s) = None \<and>
             \<not> hasSuggestion (rejectSuggestion_alt s)"
    using Some by (simp add: rejectSuggestion_alt_def cleanup_def setContext_def)
  show ?thesis
  proof (cases "resolve_text (document_uri (editor p)) s")
    case None
    with alt show ?thesis
      by (simp add: rejectSuggestion_unresolved [OF Some None])
  next
    case (Some t)
    with alt show ?thesis
      by (simp add: rejectSuggestion_resolved [OF \<open>currentSuggestion s = Some p\<close> Some])
  qed
qed

text \<open>
  \<open>acceptSuggestion\<close> with a suggestion pending: either it cleans up, or it leaves the
  suggestion and the context key as they were. It cleans up exactly when its \<open>try\<close>
  block runs to the end.
\<close>

lemma accept_state_after:
  assumes "currentSuggestion s = Some p"
  shows "(resolve_text (document_uri (editor p)) s \<noteq> None \<and> edit_ok s \<longrightarrow>
            currentSuggestion (acceptSuggestion s) = None \<and> \<not> hasSuggestion (acceptSuggestion s)) \<and>
         (resolve_text (document_uri (editor p)) s = None \<or> \<not> edit_ok s \<longrightarrow>
            currentSuggestion (acceptSuggestion s) = Some p \<and>
            hasSuggestion (acceptSuggestion s) = hasSuggestion s)"
proof (cases "resolve_text (document_uri (editor p)) s")
  case None
  then show ?thesis
    by (simp add: acceptSuggestion_unresolved [OF assms None] assms)
next
  case (Some t)
  show ?thesis
  proof (cases "edit_ok s")
    case True
    with Some show ?thesis
      by (simp add: acceptSuggestion_success [OF assms Some True])
  next
    case False
    with Some show ?thesis
      by (simp add: acceptSuggestion_edit_rejected [OF assms Some False] assms)
  qed
qed

lemma accept_alt_state_after:
  assumes "currentSuggestion s = Some p"
  shows "(resolve_text (document_uri (editor p)) s \<noteq> None \<and>
          (textDocuments s (document_uri (editor p)) \<noteq> None \<longrightarrow> is_open (targetEditor p s) s) \<longrightarrow>
            currentSuggestion (acceptSuggestion_alt s) = None \<and>
            \<not> hasSuggestion (acceptSuggestion_alt s)) \<and>
         (resolve_text (document_uri (editor p)) s = None \<or>
          textDocuments s (document_uri (editor p)) \<noteq> None \<and> \<not> is_open (targetEditor p s) s \<longrightarrow>
            currentSuggestion (acceptSuggestion_alt s) = Some p \<and>
            hasSuggestion (acceptSuggestion_alt s) = hasSuggestion s)"
proof (cases "textDocuments s (document_uri (editor p))")
  case None
  show ?thesis
  proof (cases "files s (document_uri (editor p))")
    case fnone: None
    with None have r: "resolve_text (document_uri (editor p)) s = None"
      by (simp add: resolve_text_def)
    show ?thesis
      by (simp add: acceptSuggestion_alt_unresolved [OF assms r] r assms None)
  next
    case (Some t)
    with None have r: "resolve_text (document_uri (editor p)) s \<noteq> None"
      by (simp add: resolve_text_def)
    from acceptSuggestion_alt_closed_document [OF assms None Some] r None show ?thesis
      by simp
  qed
next
  case (Some t)
  then have r: "resolve_text (document_uri (editor p)) s \<noteq> None"
    by (simp add: resolve_text_def)
  show ?thesis
  proof (cases "is_open (targetEditor p s) s")
    case True
    from acceptSuggestion_alt_open_document [OF assms Some True] r True show ?thesis
      by simp
  next
    case False
    with r Some show ?thesis
      by (simp add: acceptSuggestion_alt_closed_editor [OF assms Some False] assms)
  qed
qed

text \<open>
  Claim C4, as the code has it. After every call of \<open>rejectSuggestion\<close>, and after
  every call of \<open>acceptSuggestion\<close> that succeeds, nothing is pending and the context
  key is false; a call made with nothing pending leaves nothing pending and the key as
  it was. After a call of \<open>acceptSuggestion\<close> that fails, the suggestion is still pending
  and the key is unchanged: \<open>cleanup\<close> is the last statement of the \<open>try\<close> block and the
  \<open>catch\<close> block does not call it. For \<open>suggestionManager.ts\<close> the call fails when the
  document cannot be opened or the host refuses the edit; for the second copy, when the
  document cannot be opened or the editor it edits through is closed.
\<close>

theorem state_after_call:
  "(currentSuggestion s = None \<longrightarrow>
      rejectSuggestion s = s \<and> rejectSuggestion_alt s = s \<and>
      currentSuggestion (acceptSuggestion s) = None \<and>
      hasSuggestion (acceptSuggestion s) = hasSuggestion s \<and>
      currentSuggestion (acceptSuggestion_alt s) = None \<and>
      hasSuggestion (acceptSuggestion_alt s) = hasSuggestion s) \<and>
   (currentSuggestion s = Some p \<longrightarrow>
      currentSuggestion (rejectSuggestion s) = None \<and> \<not> hasSuggestion (rejectSuggestion s) \<and>
      currentSuggestion (rejectSuggestion_alt s) = None \<and>
      \<not> hasSuggestion (rejectSuggestion_alt s) \<and>
      (resolve_text (document_uri (editor p)) s \<noteq> None \<and> edit_ok s \<longrightarrow>
         currentSuggestion (acceptSuggestion s) = None \<and> \<not> hasSuggestion (acceptSuggestion s)) \<and>
      (resolve_text (document_uri (editor p)) s = None \<or> \<not> edit_ok s \<longrightarrow>
         currentSuggestion (acceptSuggestion s) = Some p \<and>
         hasSuggestion (acceptSuggestion s) = hasSuggestion s) \<and>
      (resolve_text (document_uri (editor p)) s \<noteq> None \<and>
       (textDocuments s (document_uri (editor p)) \<noteq> None \<longrightarrow> is_open (targetEditor p s) s) \<longrightarrow>
         currentSuggestion (acceptSuggestion_alt s) = None \<and>
         \<not> hasSuggestion (acceptSuggestion_alt s)) \<and>
      (resolve_text (document_uri (editor p)) s = None \<or>
       textDocuments s (document_uri (editor p)) \<noteq> None \<and> \<not> is_open (targetEditor p s) s \<longrightarrow>
         currentSuggestion (acceptSuggestion_alt s) = Some p \<and>
         hasSuggestion (acceptSuggestion_alt s) = hasSuggestion s))"
proof (intro conjI impI)
  assume idle: "currentSuggestion s = None"
  then show "rejectSuggestion s = s" "rejectSuggestion_alt s = s"
    "currentSuggestion (acceptSuggestion s) = None"
    "hasSuggestion (acceptSuggestion s) = hasSuggestion s"
    "currentSuggestion (acceptSuggestion_alt s) = None"
    "hasSuggestion (acceptSuggestion_alt s) = hasSuggestion s"
    by (simp_all add: rejectSuggestion_idle rejectSuggestion_alt_idle acceptSuggestion_idle
        acceptSuggestion_alt_idle)
next
  assume pending: "currentSuggestion s = Some p"
  with reject_returns_idle [of s]
  show "currentSuggestion (rejectSuggestion s) = None"
    "\<not> hasSuggestion (rejectSuggestion s)"
    "currentSuggestion (rejectSuggestion_alt s) = None"
    "\<not> hasSuggestion (rejectSuggestion_alt s)"
    by simp_all
next
  assume "currentSuggestion s = Some p"
    and "resolve_text (document_uri (editor p)) s \<noteq> None \<and> edit_ok s"
  with accept_state_after [of s p]
  show "currentSuggestion (acceptSuggestion s) = None" "\<not> hasSuggestion (acceptSuggestion s)"
    by blast+
next
  assume "currentSuggestion s = Some p"
    and "resolve_text (document_uri (editor p)) s = None \<or> \<not> edit_ok s"
  with accept_state_after [of s p]
  show "currentSuggestion (acceptSuggestion s) = Some p"
    "hasSuggestion (acceptSuggestion s) = hasSuggestion s"
    by blast+
next
  assume "currentSuggestion s = Some p"
    and "resolve_text (document_uri (editor p)) s \<noteq> None \<and>
       (textDocuments s (document_uri (editor p)) \<noteq> None \<longrightarrow> is_open (targetEditor p s) s)"
  with accept_alt_state_after [of s p]
  show "currentSuggestion (acceptSuggestion_alt s) = None"
    "\<not> hasSuggestion (acceptSuggestion_alt s)"
    by blast+
next
  assume "currentSuggestion s = Some p"
    and "resolve_text (document_uri (editor p)) s = None \<or>
       textDocuments s (document_uri (editor p)) \<noteq> None \<and> \<not> is_open (targetEditor p s) s"
  with accept_alt_state_after [of s p]
  show "currentSuggestion (acceptSuggestion_alt s) = Some p"
    "hasSuggestion (acceptSuggestion_alt s) = hasSuggestion s"
    by blast+
qed

lemma refusing_state_facts:
  "currentSuggestion (presented_state\<lparr>edit_ok := False\<rparr>) = Some suggestion0"
  "\<not> edit_ok (presented_state\<lparr>edit_ok := False\<rparr>)"
  "hasSuggestion (presented_state\<lparr>edit_ok := False\<rparr>)"
  "currentSuggestion presented_state = Some suggestion0"
  "resolve_text (document_uri (editor suggestion0)) presented_state \<noteq> None"
  "edit_ok presented_state"
  "textDocuments presented_state (document_uri (editor suggestion0)) \<noteq> None"
  "is_open (targetEditor suggestion0 presented_state) presented_state"
  by (simp_all add: presented_state_eq suggestion0_def editor0_def resolve_text_def is_open_def
      targetEditor_def)

text \<open>
  From the presented example every call ends with nothing pending, except
  \<open>acceptSuggestion\<close> on a host that refuses the edit.
\<close>

theorem state_after_call_witness:
  "currentSuggestion presented_state = Some suggestion0 \<and>
   resolve_text (document_uri (editor suggestion0)) presented_state \<noteq> None \<and>
   edit_ok presented_state \<and>
   is_open (targetEditor suggestion0 presented_state) presented_state \<and>
   currentSuggestion (rejectSuggestion presented_state) = None \<and>
   \<not> hasSuggestion (rejectSuggestion presented_state) \<and>
   currentSuggestion (acceptSuggestion presented_state) = None \<and>
   \<not> hasSuggestion (acceptSuggestion presented_state) \<and>
   currentSuggestion (acceptSuggestion_alt presented_state) = None \<and>
   \<not> hasSuggestion (acceptSuggestion_alt presented_state) \<and>
   currentSuggestion (presented_state\<lparr>edit_ok := False\<rparr>) = Some suggestion0 \<and>
   \<not> edit_ok (presented_state\<lparr>edit_ok := False\<rparr>) \<and>
   currentSuggestion (acceptSuggestion (presented_state\<lparr>edit_ok := False\<rparr>)) = Some suggestion0 \<and>
   hasSuggestion (acceptSuggestion (presented_state\<lparr>edit_ok := False\<rparr>))"
  using state_after_call [of presented_state suggestion0]
    state_after_call [of "presented_state\<lparr>edit_ok := False\<rparr>" suggestion0]
    refusing_state_facts
  by simp

text \<open>
  The claim as written has nothing pending after a failed accept too. On a host that
  refuses edits \<open>acceptSuggestion\<close> shows the error and leaves the suggestion pending
  and the key true; so does the second copy when the stored editor is closed.
\<close>

theorem accept_failure_stays_pending_counterexample:
  "currentSuggestion (acceptSuggestion (presented_state\<lparr>edit_ok := False\<rparr>)) = Some suggestion0 \<and>
   hasSuggestion (acceptSuggestion (presented_state\<lparr>edit_ok := False\<rparr>)) \<and>
   notifications (acceptSuggestion (presented_state\<lparr>edit_ok := False\<rparr>)) =
     [Information (''shorter'' @ [CHR 0x0A, CHR 0x0A] @
        ''Review the diff and press Ctrl+Enter to accept or Esc to reject''),
      ErrorMessage ''Error applying suggestion: Failed to apply edit''] \<and>
   currentSuggestion
     (acceptSuggestion_alt (presented_state\<lparr>visibleTextEditors := [], activeTextEditor := None\<rparr>)) =
     Some suggestion0 \<and>
   hasSuggestion
     (acceptSuggestion_alt (presented_state\<lparr>visibleTextEditors := [], activeTextEditor := None\<rparr>))"
  by code_simp

subsection \<open>Rejecting\<close>

text \<open>
  Claim C6. In every state, with or without a pending suggestion, \<open>rejectSuggestion\<close>
  changes no document text: every URI stands for the same text afterwards, a loaded
  document keeps its text, nothing is written to a file, and no edit call reaches the
  host. The second copy's \<open>rejectSuggestion\<close> leaves documents, files and the trace of
  host calls as they were.
\<close>

theorem reject_never_edits:
  "resolve_text d (rejectSuggestion s) = resolve_text d s \<and>
   (textDocuments s d \<noteq> None \<longrightarrow> textDocuments (rejectSuggestion s) d = textDocuments s d) \<and>
   files (rejectSuggestion s) = files s \<and>
   edit_calls (trace (rejectSuggestion s)) = edit_calls (trace s) \<and>
   textDocuments (rejectSuggestion_alt s) = textDocuments s \<and>
   files (rejectSuggestion_alt s) = files s \<and>
   trace (rejectSuggestion_alt s) = trace s"
  using rejectSuggestion_frame [of d s] rejectSuggestion_alt_frame [of s] by simp

text \<open>Rejecting the presented suggestion leaves \<open>a.ts\<close> as it was.\<close>

theorem reject_never_edits_witness:
  "textDocuments presented_state ''a.ts'' = Some ''0123456789'' \<and>
   textDocuments (rejectSuggestion presented_state) ''a.ts'' = Some ''0123456789'' \<and>
   files (rejectSuggestion presented_state) ''a.ts'' = Some ''0123456789'' \<and>
   edit_calls (trace (rejectSuggestion presented_state)) = [] \<and>
   textDocuments (rejectSuggestion_alt presented_state) ''a.ts'' = Some ''0123456789''"
  using reject_never_edits [of "''a.ts''" presented_state]
  by (simp add: presented_state_eq edit_calls_def)

subsection \<open>Calls with nothing pending\<close>

text \<open>
  Claim C7, as the code has it. With no suggestion pending, \<open>acceptSuggestion\<close> shows
  the warning \<open>No suggestion to accept\<close> and changes nothing else, so no document;
  \<open>rejectSuggestion\<close> returns at once and changes nothing at all: it shows no warning.
  Both copies of the class agree.
\<close>

theorem idle_calls:
  assumes "currentSuggestion s = None"
  shows "acceptSuggestion s =
           s\<lparr>notifications := notifications s @ [Warning ''No suggestion to accept'']\<rparr> \<and>
         acceptSuggestion_alt s =
           s\<lparr>notifications := notifications s @ [Warning ''No suggestion to accept'']\<rparr> \<and>
         rejectSuggestion s = s \<and>
         rejectSuggestion_alt s = s"
  using assms
  by (simp add: acceptSuggestion_idle acceptSuggestion_alt_idle rejectSuggestion_idle
      rejectSuggestion_alt_idle)

theorem idle_calls_witness:
  "currentSuggestion idle_state = None \<and>
   notifications (acceptSuggestion idle_state) = [Warning ''No suggestion to accept''] \<and>
   textDocuments (acceptSuggestion idle_state) = textDocuments idle_state \<and>
   rejectSuggestion idle_state = idle_state"
proof -
  have idle: "currentSuggestion idle_state = None"
    by (simp add: idle_state_def)
  have "notifications idle_state = []"
    by (simp add: idle_state_def)
  with idle idle_calls [OF idle] show ?thesis
    by simp
qed

text \<open>
  The claim as written asks for a warning from \<open>rejectSuggestion\<close> too. Called with
  nothing pending, it shows nothing, in either copy.
\<close>

theorem reject_idle_silent_counterexample:
  "notifications (rejectSuggestion idle_state) = [] \<and>
   notifications (rejectSuggestion_alt idle_state) = []"
  by (simp add: rejectSuggestion_def rejectSuggestion_alt_def idle_state_def)

subsection \<open>Disposing\<close>

text \<open>
  Claim C10. \<open>dispose\<close> clears the decoration and disposes the decoration type, and
  that is all: the state it leaves differs from the one it found only in the decorations
  of the editors and in the decoration type being disposed. A pending suggestion stays
  in \<open>currentSuggestion\<close> and the context key \<open>aiCodeAssistant.hasSuggestion\<close> keeps its
  value.
\<close>

theorem dispose_keeps_suggestion:
  "dispose s =
     s\<lparr>decorationDisposed := True,
       visibleTextEditors := map (\<lambda>v. v\<lparr>view_decorations := []\<rparr>) (visibleTextEditors s)\<rparr> \<and>
   currentSuggestion (dispose s) = currentSuggestion s \<and>
   hasSuggestion (dispose s) = hasSuggestion s \<and>
   decorationDisposed (dispose s) \<and>
   (\<forall>v \<in> set (visibleTextEditors (dispose s)). view_decorations v = [])"
  by (auto simp: dispose_def clearDecorations_def setDecorations_def Let_def split: option.splits)

text \<open>Disposing while the example suggestion is presented: it is still pending after.\<close>

theorem dispose_keeps_suggestion_witness:
  "currentSuggestion (dispose presented_state) = Some suggestion0 \<and>
   hasSuggestion (dispose presented_state) \<and>
   decorationDisposed (dispose presented_state) \<and>
   visibleTextEditors (dispose presented_state) =
     [\<lparr>view_editor = editor0, view_decorations = []\<rparr>]"
  using dispose_keeps_suggestion [of presented_state]
  by (simp add: presented_state_eq)

end
